theory Spec2Isabelle
  imports Complex_Main
begin

section \<open>Tensors, errors and the torch primitives the notebook uses\<close>

text \<open>
  The notebook computes on torch tensors of 32-bit floats. The development reads every
  tensor entry as a real number: a vector is a list of reals, a two-dimensional tensor of
  shape \<open>[N, w]\<close> is the list of its \<open>N\<close> rows, a three-dimensional one a list of those.
  Rounding is therefore outside the model; every statement below is about the exact
  arithmetic the floating-point code approximates. A tensor without rows has no width in
  this representation, so a check that torch makes on the width of an empty batch passes.

  A Python exception is a value \<open>Inl e\<close> of the result type \<open>error + 'a\<close>.
\<close>

datatype error =
    ShapeError          \<comment> \<open>torch \<open>RuntimeError\<close> or numpy \<open>ValueError\<close>: sizes do not match\<close>
  | EmptyCatError       \<comment> \<open>torch \<open>RuntimeError\<close>: \<open>torch.cat\<close> of an empty list\<close>
  | IndexError          \<comment> \<open>torch \<open>IndexError\<close>: index out of range for a dimension\<close>
  | ZeroDivisionError   \<comment> \<open>Python \<open>ZeroDivisionError\<close>\<close>
  | IOError             \<comment> \<open>an \<open>OSError\<close> raised while an image file is written\<close>

type_synonym vec = "real list"
type_synonym tensor2 = "real list list"
type_synonym tensor3 = "real list list list"

definition ebind :: "error + 'a \<Rightarrow> ('a \<Rightarrow> error + 'b) \<Rightarrow> error + 'b" where
  "ebind m f = (case m of Inl e \<Rightarrow> Inl e | Inr v \<Rightarrow> f v)"

text \<open>\<open>torch.cat(ts, dim=1)\<close> on two-dimensional tensors: the rows are joined side by side,
  which needs the same number of rows in every tensor and at least one tensor.\<close>

fun torch_cat1 :: "tensor2 list \<Rightarrow> error + tensor2" where
  "torch_cat1 [] = Inl EmptyCatError"
| "torch_cat1 [t] = Inr t"
| "torch_cat1 (t # ts) =
     ebind (torch_cat1 ts)
       (\<lambda>r. if length t = length r then Inr (map2 (@) t r) else Inl ShapeError)"

section \<open>NerfModel.positional_encoding\<close>

text \<open>
  \<^verbatim>\<open>out = [x]
for j in range(L):
    out.append(torch.sin(2 ** j * x))
    out.append(torch.cos(2 ** j * x))
return torch.cat(out, dim=1)\<close>

  \<open>L\<close> is a Python integer; \<open>range(L)\<close> is empty when \<open>L \<le> 0\<close>.
\<close>

definition torch_sin :: "tensor2 \<Rightarrow> tensor2" where
  "torch_sin x = map (map sin) x"

definition torch_cos :: "tensor2 \<Rightarrow> tensor2" where
  "torch_cos x = map (map cos) x"

definition scale2 :: "real \<Rightarrow> tensor2 \<Rightarrow> tensor2" where
  "scale2 k x = map (map (\<lambda>v. k * v)) x"

fun pe_loop :: "tensor2 \<Rightarrow> nat list \<Rightarrow> tensor2 list \<Rightarrow> tensor2 list" where
  "pe_loop x [] out = out"
| "pe_loop x (j # js) out =
     pe_loop x js (out @ [torch_sin (scale2 (2 ^ j) x), torch_cos (scale2 (2 ^ j) x)])"

definition positional_encoding :: "tensor2 \<Rightarrow> int \<Rightarrow> error + tensor2" where
  "positional_encoding x L = torch_cat1 (pe_loop x [0..<nat L] [x])"

section \<open>NerfModel\<close>

text \<open>
  An \<open>nn.Linear\<close> layer holds a weight matrix of shape \<open>[out_features, in_features]\<close> and a
  bias of length \<open>out_features\<close>; applied to a batch it maps every row \<open>r\<close> to
  \<open>W r + b\<close> and raises when the width of the batch is not \<open>in_features\<close>.
  \<open>nn.ReLU\<close> and \<open>nn.Sigmoid\<close> act on every entry. An \<open>nn.Sequential\<close> applies its
  layers in order.
\<close>

record linear =
  in_features :: nat
  weight :: tensor2
  bias :: vec

datatype layer = Linear linear | ReLU | Sigmoid

definition dot :: "vec \<Rightarrow> vec \<Rightarrow> real" where
  "dot a b = sum_list (map2 (*) a b)"

definition linear_row :: "linear \<Rightarrow> vec \<Rightarrow> vec" where
  "linear_row l r = map2 (\<lambda>w b. dot w r + b) (weight l) (bias l)"

definition relu :: "real \<Rightarrow> real" where
  "relu v = max 0 v"

definition sigmoid :: "real \<Rightarrow> real" where
  "sigmoid v = 1 / (1 + exp (- v))"

fun layer_forward :: "layer \<Rightarrow> tensor2 \<Rightarrow> error + tensor2" where
  "layer_forward (Linear l) x =
     (if list_all (\<lambda>r. length r = in_features l) x then Inr (map (linear_row l) x)
      else Inl ShapeError)"
| "layer_forward ReLU x = Inr (map (map relu) x)"
| "layer_forward Sigmoid x = Inr (map (map sigmoid) x)"

fun sequential :: "layer list \<Rightarrow> tensor2 \<Rightarrow> error + tensor2" where
  "sequential [] x = Inr x"
| "sequential (l # ls) x = ebind (layer_forward l x) (sequential ls)"

text \<open>The fields of a \<open>NerfModel\<close> object that \<open>forward\<close> reads. \<open>__init__\<close> fills the four
  blocks with freshly initialised layers; training changes their weights in place.\<close>

record NerfModel =
  block1 :: "layer list"
  block2 :: "layer list"
  block3 :: "layer list"
  block4 :: "layer list"
  posEncCoord_dim :: int
  posEncDirection_dim :: int

text \<open>\<open>tmp[:, :-1]\<close> and \<open>self.relu(tmp[:, -1])\<close>: all columns but the last, and the
  rectified last column, which does not exist in a tensor of width 0.\<close>

definition split_last :: "tensor2 \<Rightarrow> error + (tensor2 \<times> vec)" where
  "split_last tmp =
     (if list_ex (\<lambda>r. r = []) tmp then Inl IndexError
      else Inr (map butlast tmp, map (\<lambda>r. relu (last r)) tmp))"

definition forward :: "NerfModel \<Rightarrow> tensor2 \<Rightarrow> tensor2 \<Rightarrow> error + (tensor2 \<times> vec)" where
  "forward self o_in d =
     ebind (positional_encoding o_in (posEncCoord_dim self)) (\<lambda>emb_x.
     ebind (positional_encoding d (posEncDirection_dim self)) (\<lambda>emb_d.
     ebind (sequential (block1 self) emb_x) (\<lambda>features.
     ebind (torch_cat1 [features, emb_x]) (\<lambda>fx.
     ebind (sequential (block2 self) fx) (\<lambda>tmp.
     ebind (split_last tmp) (\<lambda>(features, sigma).
     ebind (torch_cat1 [features, emb_d]) (\<lambda>fd.
     ebind (sequential (block3 self) fd) (\<lambda>features.
     ebind (sequential (block4 self) features) (\<lambda>c.
     Inr (c, sigma))))))))))"

text \<open>The layer structure \<open>__init__\<close> builds, for given layers: four rectified linear layers,
  three rectified and one plain linear layer, one rectified linear layer, and a linear
  layer under a sigmoid.\<close>

definition NerfModel_init ::
  "int \<Rightarrow> int \<Rightarrow> linear list \<Rightarrow> linear list \<Rightarrow> linear \<Rightarrow> linear \<Rightarrow> NerfModel" where
  "NerfModel_init pc pd ls1 ls2 l3 l4 =
     \<lparr> block1 = concat (map (\<lambda>l. [Linear l, ReLU]) ls1),
       block2 = concat (map (\<lambda>l. [Linear l, ReLU]) (butlast ls2)) @ [Linear (last ls2)],
       block3 = [Linear l3, ReLU],
       block4 = [Linear l4, Sigmoid],
       posEncCoord_dim = pc,
       posEncDirection_dim = pd \<rparr>"

section \<open>Accumulated transmittance\<close>

text \<open>\<open>torch.cumprod(alphas, 1)\<close> is the running product along every row.
  \<open>compute_accumulated_transmittance\<close> drops the last running product of every row and
  puts a column of ones in front.\<close>

fun cumprod_from :: "real \<Rightarrow> vec \<Rightarrow> vec" where
  "cumprod_from p [] = []"
| "cumprod_from p (a # as) = (p * a) # cumprod_from (p * a) as"

definition torch_cumprod1 :: "tensor2 \<Rightarrow> tensor2" where
  "torch_cumprod1 x = map (cumprod_from 1) x"

definition compute_accumulated_transmittance :: "tensor2 \<Rightarrow> tensor2" where
  "compute_accumulated_transmittance alphas =
     (let accumulated_transmittance = torch_cumprod1 alphas
      in map (\<lambda>r. 1 # butlast r) accumulated_transmittance)"

section \<open>Rendering rays\<close>

text \<open>
  A ray origin or direction is a row of three numbers; \<open>render_rays\<close> hard-codes the
  width 3 (\<open>expand(nb_bins, _, 3)\<close>, \<open>reshape(-1, 3)\<close>), and every caller passes the column
  slices \<open>[:, :3]\<close> and \<open>[:, 3:6]\<close> of a dataset. The number of rows is not fixed by the type:
  torch broadcasts a batch of one row against a longer one and raises on any other
  mismatch, which \<open>broadcast_rows\<close> reproduces.

  \<open>torch.rand\<close> reads the global random generator. The generator is the stream of the
  numbers it will still produce; a call takes as many as the requested shape has entries,
  row by row, and leaves the rest.
\<close>

type_synonym vec3 = "real \<times> real \<times> real"
type_synonym generator = "nat \<Rightarrow> real"
type_synonym model_fn = "tensor2 \<Rightarrow> tensor2 \<Rightarrow> error + (tensor2 \<times> vec)"

definition v3_list :: "vec3 \<Rightarrow> vec" where
  "v3_list v = (case v of (a, b, c) \<Rightarrow> [a, b, c])"

definition v3_axpy :: "vec3 \<Rightarrow> real \<Rightarrow> vec3 \<Rightarrow> vec3" where
  "v3_axpy p k d = (case p of (px, py, pz) \<Rightarrow> case d of (dx, dy, dz) \<Rightarrow>
     (px + k * dx, py + k * dy, pz + k * dz))"

definition broadcast_rows :: "('a \<Rightarrow> 'b \<Rightarrow> 'c) \<Rightarrow> 'a list \<Rightarrow> 'b list \<Rightarrow> error + 'c list" where
  "broadcast_rows f xs ys =
     (if length xs = length ys then Inr (map2 f xs ys)
      else if length xs = 1 then Inr (map (f (hd xs)) ys)
      else if length ys = 1 then Inr (map (\<lambda>x. f x (hd ys)) xs)
      else Inl ShapeError)"

definition torch_rand :: "nat \<Rightarrow> nat \<Rightarrow> generator \<Rightarrow> tensor2 \<times> generator" where
  "torch_rand N B g =
     (map (\<lambda>r. map (\<lambda>c. g (r * B + c)) [0..<B]) [0..<N], \<lambda>i. g (N * B + i))"

definition torch_linspace :: "real \<Rightarrow> real \<Rightarrow> nat \<Rightarrow> vec" where
  "torch_linspace a b steps =
     (if steps = 1 then [a]
      else map (\<lambda>i. a + real i * ((b - a) / real (steps - 1))) [0..<steps])"

text \<open>Lines 127 to 137: the evenly spaced depths, the bin bounds at their midpoints, and
  the depth drawn in every bin from the jitter \<open>u\<close>.\<close>

definition sample_depths :: "real \<Rightarrow> real \<Rightarrow> nat \<Rightarrow> nat \<Rightarrow> tensor2 \<Rightarrow> tensor2" where
  "sample_depths hn hf nb_bins N u =
     (let t = replicate N (torch_linspace hn hf nb_bins);
          mid = map (\<lambda>r. map2 (\<lambda>a b. (a + b) / 2) (butlast r) (tl r)) t;
          lower = map2 (\<lambda>r m. take 1 r @ m) t mid;
          upper = map2 (\<lambda>m r. m @ drop (length r - 1) r) mid t
      in map2 (\<lambda>(lo, up) ur. map2 (\<lambda>(l, h) v. l + (h - l) * v) (zip lo up) ur)
           (zip lower upper) u)"

text \<open>Line 138: the distance to the next depth, and \<open>1e10\<close> after the last one.\<close>

definition ray_deltas :: "tensor2 \<Rightarrow> tensor2" where
  "ray_deltas t = map (\<lambda>r. map2 (-) (tl r) (butlast r) @ [10000000000]) t"

text \<open>Line 143: the points \<open>o + t d\<close> of every ray, of shape \<open>[N, nb_bins, 3]\<close>.\<close>

definition sample_points :: "vec3 list \<Rightarrow> tensor2 \<Rightarrow> vec3 list \<Rightarrow> error + vec3 list list" where
  "sample_points ray_origins t ray_directions =
     broadcast_rows (\<lambda>(p, tr) d. map (\<lambda>tv. v3_axpy p tv d) tr) (zip ray_origins t) ray_directions"

text \<open>Lines 146 and 149: every direction repeated once per bin, flattened to rows.\<close>

definition expand_directions :: "nat \<Rightarrow> vec3 list \<Rightarrow> vec3 list" where
  "expand_directions nb_bins ray_directions = concat (map (replicate nb_bins) ray_directions)"

text \<open>\<open>reshape\<close> keeps the entries in row-major order and raises when their number is not the
  product of the requested sizes.\<close>

definition rows_of :: "nat \<Rightarrow> nat \<Rightarrow> 'a list \<Rightarrow> 'a list list" where
  "rows_of N B xs = map (\<lambda>r. take B (drop (r * B) xs)) [0..<N]"

definition reshape2 :: "nat \<Rightarrow> nat \<Rightarrow> 'a list \<Rightarrow> error + 'a list list" where
  "reshape2 N B xs = (if length xs = N * B then Inr (rows_of N B xs) else Inl ShapeError)"

definition reshape3 :: "nat \<Rightarrow> nat \<Rightarrow> nat \<Rightarrow> 'a list \<Rightarrow> error + 'a list list list" where
  "reshape3 N B C xs =
     (if length xs = N * B * C then Inr (rows_of N B (rows_of (N * B) C xs))
      else Inl ShapeError)"

text \<open>Lines 155 and 156 for one ray: the opacities and the weights.\<close>

definition ray_alpha :: "vec \<Rightarrow> vec \<Rightarrow> vec" where
  "ray_alpha sigma delta = map2 (\<lambda>s d. 1 - exp (- s * d)) sigma delta"

definition render_weights :: "tensor2 \<Rightarrow> tensor2" where
  "render_weights alpha =
     map2 (map2 (*)) (compute_accumulated_transmittance (map (map (\<lambda>a. 1 - a)) alpha)) alpha"

text \<open>Lines 159 to 163: the weighted colour sum of every ray, the sum of its weights, and
  the white background under what the weights leave.\<close>

definition weighted_colors :: "tensor2 \<Rightarrow> tensor3 \<Rightarrow> tensor2" where
  "weighted_colors weights colors =
     map2 (\<lambda>ws cs. map (\<lambda>k. sum_list (map2 (\<lambda>w c. w * c ! k) ws cs)) [0..<3]) weights colors"

definition composite :: "tensor2 \<Rightarrow> tensor3 \<Rightarrow> tensor2" where
  "composite weights colors =
     (let c = weighted_colors weights colors;
          weight_sum = map sum_list weights
      in map2 (\<lambda>cr ws. map (\<lambda>v. v + 1 - ws) cr) c weight_sum)"

text \<open>Lines 127 to 155 for a given jitter tensor \<open>u\<close>: the colours of all samples,
  reshaped to \<open>[N, nb_bins, 3]\<close>, and their opacities \<open>alpha\<close>.\<close>

definition render_samples ::
  "model_fn \<Rightarrow> vec3 list \<Rightarrow> vec3 list \<Rightarrow> real \<Rightarrow> real \<Rightarrow> nat \<Rightarrow> tensor2
     \<Rightarrow> error + (tensor3 \<times> tensor2)" where
  "render_samples nerf_model ray_origins ray_directions hn hf nb_bins u =
     (let N = length ray_origins;
          t = sample_depths hn hf nb_bins N u;
          delta = ray_deltas t
      in ebind (sample_points ray_origins t ray_directions) (\<lambda>x.
         ebind (nerf_model (map v3_list (concat x))
                  (map v3_list (expand_directions nb_bins ray_directions))) (\<lambda>(colors, sigma).
         ebind (reshape3 (length x) nb_bins 3 (concat colors)) (\<lambda>colors.
         ebind (reshape2 (length x) nb_bins sigma) (\<lambda>sigma.
         ebind (broadcast_rows ray_alpha sigma delta) (\<lambda>alpha.
         Inr (colors, alpha)))))))"

text \<open>The jitter is drawn (line 136) before anything can raise, so the generator has
  advanced by \<open>N * nb_bins\<close> numbers whether or not the call returns.\<close>

definition render_rays ::
  "model_fn \<Rightarrow> vec3 list \<Rightarrow> vec3 list \<Rightarrow> real \<Rightarrow> real \<Rightarrow> nat \<Rightarrow> generator
     \<Rightarrow> (error + tensor2) \<times> generator" where
  "render_rays nerf_model ray_origins ray_directions hn hf nb_bins g =
     (let (u, g') = torch_rand (length ray_origins) nb_bins g
      in (ebind (render_samples nerf_model ray_origins ray_directions hn hf nb_bins u)
            (\<lambda>(colors, alpha). Inr (composite (render_weights alpha) colors)), g'))"

section \<open>The training run: state, train and test\<close>

text \<open>
  A dataset row holds an origin, a direction and a ground-truth colour (columns \<open>:3\<close>,
  \<open>3:6\<close> and \<open>6:\<close>).

  \<open>train\<close> and \<open>test\<close> work on objects that live outside them: the model, whose
  parameters \<open>optimizer.step()\<close> changes in place, the optimizer, the scheduler, the
  global random generator and the directory the images are written to. A \<open>world\<close>
  holds their states; a statement of the program maps the world to a result and the world
  it leaves, and a raised exception leaves the world as it was when it was raised.
  \<open>test\<close> reads the module-level name \<open>model\<close>; the notebook passes that same object to
  \<open>train\<close>, so one field stands for both.

  What torch, the data loader and matplotlib do is a parameter of the development:
  \<^item> \<open>apply_model\<close>: the forward pass of the model with given parameters;
  \<^item> \<open>optimizer_step\<close>: \<open>optimizer.zero_grad(); loss.backward(); optimizer.step()\<close>, the new
    parameters and optimizer state for the loss of one mini-batch (the batch, the sampling
    arguments and the generator the jitter was drawn from determine that loss);
  \<^item> \<open>scheduler_step\<close>: \<open>scheduler.step()\<close>;
  \<^item> \<open>data_loader\<close>: one pass over the loader, the mini-batches in the order it yields them,
    shuffled with numbers of the generator;
  \<^item> \<open>savefig\<close>: writing the image of an index, which the file system may refuse;
  \<^item> \<open>testing_dataset\<close>: the module-level dataset \<open>train\<close> evaluates on.
\<close>

record row =
  origin :: vec3
  direction :: vec3
  rgb :: vec3

record ('m, 'o, 's, 'fs) world =
  model :: 'm
  optimizer :: 'o
  scheduler :: 's
  gen :: generator
  files :: 'fs

record ('m, 'o, 's, 'fs) env =
  apply_model :: "'m \<Rightarrow> model_fn"
  optimizer_step :: "'m \<Rightarrow> 'o \<Rightarrow> row list \<Rightarrow> real \<Rightarrow> real \<Rightarrow> nat \<Rightarrow> generator \<Rightarrow> 'm \<times> 'o"
  scheduler_step :: "'o \<Rightarrow> 's \<Rightarrow> 'o \<times> 's"
  data_loader :: "generator \<Rightarrow> row list list \<times> generator"
  savefig :: "nat \<Rightarrow> tensor3 \<Rightarrow> 'fs \<Rightarrow> error + 'fs"
  testing_dataset :: "row list"

type_synonym ('a, 'w) prog = "'w \<Rightarrow> (error + 'a) \<times> 'w"

definition sbind :: "('a, 'w) prog \<Rightarrow> ('a \<Rightarrow> ('b, 'w) prog) \<Rightarrow> ('b, 'w) prog" where
  "sbind m f w = (case m w of (Inl e, w') \<Rightarrow> (Inl e, w') | (Inr v, w') \<Rightarrow> f v w')"

definition sreturn :: "'a \<Rightarrow> ('a, 'w) prog" where
  "sreturn v w = (Inr v, w)"

definition slift :: "error + 'a \<Rightarrow> ('a, 'w) prog" where
  "slift r w = (r, w)"

text \<open>A call of \<open>render_rays\<close> on the current model.\<close>

definition render_call ::
  "('m, 'o, 's, 'fs) env \<Rightarrow> vec3 list \<Rightarrow> vec3 list \<Rightarrow> real \<Rightarrow> real \<Rightarrow> nat
     \<Rightarrow> (tensor2, ('m, 'o, 's, 'fs) world) prog" where
  "render_call E ray_origins ray_directions hn hf nb_bins w =
     (case render_rays (apply_model E (model w)) ray_origins ray_directions hn hf nb_bins (gen w)
      of (r, g') \<Rightarrow> (r, w\<lparr>gen := g'\<rparr>))"

subsection \<open>test\<close>

text \<open>The Python slice \<open>xs[a:b]\<close> for non-negative bounds, and \<open>torch.cat\<close> along the rows.\<close>

definition slice :: "nat \<Rightarrow> nat \<Rightarrow> 'a list \<Rightarrow> 'a list" where
  "slice a b xs = take (b - a) (drop a xs)"

definition torch_cat0 :: "tensor2 list \<Rightarrow> error + tensor2" where
  "torch_cat0 ts = (if ts = [] then Inl EmptyCatError else Inr (concat ts))"

text \<open>The loop over the chunks (lines 243 to 248), with \<open>data\<close> the list built so far.\<close>

fun test_chunks ::
  "('m, 'o, 's, 'fs) env \<Rightarrow> real \<Rightarrow> real \<Rightarrow> nat \<Rightarrow> nat \<Rightarrow> nat \<Rightarrow> vec3 list \<Rightarrow> vec3 list
     \<Rightarrow> nat list \<Rightarrow> tensor2 list \<Rightarrow> (tensor2 list, ('m, 'o, 's, 'fs) world) prog" where
  "test_chunks E hn hf nb_bins W chunk_size ray_origins ray_directions [] data = sreturn data"
| "test_chunks E hn hf nb_bins W chunk_size ray_origins ray_directions (i # is) data =
     sbind (render_call E
              (slice (i * W * chunk_size) ((i + 1) * W * chunk_size) ray_origins)
              (slice (i * W * chunk_size) ((i + 1) * W * chunk_size) ray_directions)
              hn hf nb_bins)
       (\<lambda>regenerated_px_values.
          test_chunks E hn hf nb_bins W chunk_size ray_origins ray_directions is
            (data @ [regenerated_px_values]))"

text \<open>Lines 239 to 249: the image of one index. \<open>int(np.ceil(H / chunk_size))\<close> divides by
  \<open>chunk_size\<close> and is the quotient rounded up.\<close>

definition test_image ::
  "('m, 'o, 's, 'fs) env \<Rightarrow> real \<Rightarrow> real \<Rightarrow> row list \<Rightarrow> nat \<Rightarrow> nat \<Rightarrow> nat \<Rightarrow> nat \<Rightarrow> nat
     \<Rightarrow> (tensor3, ('m, 'o, 's, 'fs) world) prog" where
  "test_image E hn hf dataset chunk_size img_index nb_bins H W =
     (let ray_origins = map origin (slice (img_index * H * W) ((img_index + 1) * H * W) dataset);
          ray_directions =
            map direction (slice (img_index * H * W) ((img_index + 1) * H * W) dataset)
      in if chunk_size = 0 then slift (Inl ZeroDivisionError)
         else sbind (test_chunks E hn hf nb_bins W chunk_size ray_origins ray_directions
                       [0..<(H + chunk_size - 1) div chunk_size] [])
                (\<lambda>data. sbind (slift (torch_cat0 data))
                (\<lambda>px. slift (reshape3 H W 3 (concat px)))))"

text \<open>Lines 251 to 254: the image is written to \<open>novel_views/img_{img_index}.png\<close>.\<close>

definition write_image ::
  "('m, 'o, 's, 'fs) env \<Rightarrow> nat \<Rightarrow> tensor3 \<Rightarrow> (unit, ('m, 'o, 's, 'fs) world) prog" where
  "write_image E img_index img w =
     (case savefig E img_index img (files w) of
        Inl e \<Rightarrow> (Inl e, w)
      | Inr fs \<Rightarrow> (Inr (), w\<lparr>files := fs\<rparr>))"

definition test ::
  "('m, 'o, 's, 'fs) env \<Rightarrow> real \<Rightarrow> real \<Rightarrow> row list \<Rightarrow> nat \<Rightarrow> nat \<Rightarrow> nat \<Rightarrow> nat \<Rightarrow> nat
     \<Rightarrow> (unit, ('m, 'o, 's, 'fs) world) prog" where
  "test E hn hf dataset chunk_size img_index nb_bins H W =
     sbind (test_image E hn hf dataset chunk_size img_index nb_bins H W)
       (write_image E img_index)"

subsection \<open>train\<close>

text \<open>\<open>((ground_truth_px_values - regenerated_px_values) ** 2).sum()\<close>\<close>

definition sq_error_sum :: "vec3 list \<Rightarrow> tensor2 \<Rightarrow> real" where
  "sq_error_sum ground_truth regenerated =
     sum_list (map2 (\<lambda>gt px. sum_list (map2 (\<lambda>a b. (a - b)\<^sup>2) (v3_list gt) px))
                 ground_truth regenerated)"

text \<open>Lines 178 to 188: one mini-batch.\<close>

definition train_batch ::
  "('m, 'o, 's, 'fs) env \<Rightarrow> real \<Rightarrow> real \<Rightarrow> nat \<Rightarrow> row list \<Rightarrow> real list
     \<Rightarrow> (real list, ('m, 'o, 's, 'fs) world) prog" where
  "train_batch E hn hf nb_bins batch training_loss w =
     (let ray_origins = map origin batch;
          ray_directions = map direction batch;
          ground_truth_px_values = map rgb batch
      in case render_call E ray_origins ray_directions hn hf nb_bins w of
           (Inl e, w') \<Rightarrow> (Inl e, w')
         | (Inr regenerated_px_values, w') \<Rightarrow>
             (let loss = sq_error_sum ground_truth_px_values regenerated_px_values;
                  (m, opt) = optimizer_step E (model w) (optimizer w) batch hn hf nb_bins (gen w)
              in (Inr (training_loss @ [loss]), w'\<lparr>model := m, optimizer := opt\<rparr>)))"

fun train_batches ::
  "('m, 'o, 's, 'fs) env \<Rightarrow> real \<Rightarrow> real \<Rightarrow> nat \<Rightarrow> row list list \<Rightarrow> real list
     \<Rightarrow> (real list, ('m, 'o, 's, 'fs) world) prog" where
  "train_batches E hn hf nb_bins [] training_loss = sreturn training_loss"
| "train_batches E hn hf nb_bins (batch # batches) training_loss =
     sbind (train_batch E hn hf nb_bins batch training_loss)
       (train_batches E hn hf nb_bins batches)"

definition load_batches ::
  "('m, 'o, 's, 'fs) env \<Rightarrow> (row list list, ('m, 'o, 's, 'fs) world) prog" where
  "load_batches E w = (case data_loader E (gen w) of (bs, g') \<Rightarrow> (Inr bs, w\<lparr>gen := g'\<rparr>))"

definition scheduler_call ::
  "('m, 'o, 's, 'fs) env \<Rightarrow> (unit, ('m, 'o, 's, 'fs) world) prog" where
  "scheduler_call E w =
     (case scheduler_step E (optimizer w) (scheduler w) of
        (opt, sch) \<Rightarrow> (Inr (), w\<lparr>optimizer := opt, scheduler := sch\<rparr>))"

text \<open>Lines 191 and 192: \<open>test\<close> on the image indices, with its default chunk size 10.\<close>

fun test_loop ::
  "('m, 'o, 's, 'fs) env \<Rightarrow> real \<Rightarrow> real \<Rightarrow> nat \<Rightarrow> nat \<Rightarrow> nat \<Rightarrow> nat list
     \<Rightarrow> (unit, ('m, 'o, 's, 'fs) world) prog" where
  "test_loop E hn hf nb_bins H W [] = sreturn ()"
| "test_loop E hn hf nb_bins H W (img_index # rest) =
     sbind (test E hn hf (testing_dataset E) 10 img_index nb_bins H W)
       (\<lambda>_. test_loop E hn hf nb_bins H W rest)"

fun train_epochs ::
  "('m, 'o, 's, 'fs) env \<Rightarrow> real \<Rightarrow> real \<Rightarrow> nat \<Rightarrow> nat \<Rightarrow> nat \<Rightarrow> nat \<Rightarrow> real list
     \<Rightarrow> (real list, ('m, 'o, 's, 'fs) world) prog" where
  "train_epochs E hn hf nb_bins H W 0 training_loss = sreturn training_loss"
| "train_epochs E hn hf nb_bins H W (Suc n) training_loss =
     sbind (load_batches E) (\<lambda>batches.
     sbind (train_batches E hn hf nb_bins batches training_loss) (\<lambda>training_loss.
     sbind (scheduler_call E) (\<lambda>_.
     sbind (test_loop E hn hf nb_bins H W [0..<200]) (\<lambda>_.
     train_epochs E hn hf nb_bins H W n training_loss))))"

definition train ::
  "('m, 'o, 's, 'fs) env \<Rightarrow> real \<Rightarrow> real \<Rightarrow> nat \<Rightarrow> nat \<Rightarrow> nat \<Rightarrow> nat
     \<Rightarrow> (real list, ('m, 'o, 's, 'fs) world) prog" where
  "train E hn hf nb_epochs nb_bins H W = train_epochs E hn hf nb_bins H W nb_epochs []"

section \<open>Auxiliary notions\<close>

text \<open>The encoding of one row: the row, then its sines and cosines at every frequency.\<close>

definition pe_row :: "int \<Rightarrow> vec \<Rightarrow> vec" where
  "pe_row L r =
     r @ concat (map (\<lambda>j. map (\<lambda>v. sin (2 ^ j * v)) r @ map (\<lambda>v. cos (2 ^ j * v)) r) [0..<nat L])"

text \<open>What \<open>forward\<close> returns as density: the second component, or the exception.\<close>

definition density_output :: "error + (tensor2 \<times> vec) \<Rightarrow> error + vec" where
  "density_output r = (case r of Inl e \<Rightarrow> Inl e | Inr (c, sigma) \<Rightarrow> Inr sigma)"

text \<open>A small model for concrete runs: no frequencies, one feature; the density is the
  rectified first coordinate of the position, the red channel depends on the first
  coordinate of the direction.\<close>

definition tiny_model :: NerfModel where
  "tiny_model = NerfModel_init 0 0
     [\<lparr>in_features = 3, weight = [[1, 0, 0]], bias = [0]\<rparr>]
     [\<lparr>in_features = 4, weight = [[1, 0, 0, 0], [0, 1, 0, 0]], bias = [0, 0]\<rparr>]
     \<lparr>in_features = 4, weight = [[0, 1, 0, 0]], bias = [0]\<rparr>
     \<lparr>in_features = 1, weight = [[1], [0], [0]], bias = [0, 0, 0]\<rparr>"

text \<open>The bounds of bin \<open>i\<close> of \<open>B\<close> evenly spaced depths between \<open>hn\<close> and \<open>hf\<close>: the
  midpoints to the neighbouring depths, and the ends of the range for the first and the
  last bin. \<open>depth_row\<close> is the row of depths drawn in these bins by a row of jitter.\<close>

definition bin_lower :: "real \<Rightarrow> real \<Rightarrow> nat \<Rightarrow> nat \<Rightarrow> real" where
  "bin_lower hn hf B i = (if i = 0 then hn else hn + (real i - 1 / 2) * ((hf - hn) / real (B - 1)))"

definition bin_upper :: "real \<Rightarrow> real \<Rightarrow> nat \<Rightarrow> nat \<Rightarrow> real" where
  "bin_upper hn hf B i = (if Suc i = B then hf else hn + (real i + 1 / 2) * ((hf - hn) / real (B - 1)))"

definition depth_row :: "real \<Rightarrow> real \<Rightarrow> nat \<Rightarrow> vec \<Rightarrow> vec" where
  "depth_row hn hf B ur =
     map (\<lambda>i. bin_lower hn hf B i + (bin_upper hn hf B i - bin_lower hn hf B i) * ur ! i) [0..<B]"

text \<open>One row of \<open>sample_depths\<close>: the depths drawn by a row of jitter.\<close>

definition jitter_row :: "real \<Rightarrow> real \<Rightarrow> nat \<Rightarrow> vec \<Rightarrow> vec" where
  "jitter_row hn hf B ur =
     (let r = torch_linspace hn hf B;
          m = map2 (\<lambda>a b. (a + b) / 2) (butlast r) (tl r)
      in map2 (\<lambda>(l, h) v. l + (h - l) * v) (zip (take 1 r @ m) (m @ drop (length r - 1) r)) ur)"

text \<open>One row of \<open>render_weights\<close>: the weights of one ray from its opacities.\<close>

definition weights_row :: "vec \<Rightarrow> vec" where
  "weights_row al = map2 (*) (1 # butlast (cumprod_from 1 (map (\<lambda>a. 1 - a) al))) al"

text \<open>The emission-absorption quadrature as the specification writes it, for \<open>B\<close> samples
  with opacities \<open>alpha i\<close> and one colour channel \<open>c i\<close> over a background value:
  \<open>\<Sum>\<^sub>i T\<^sub>i alpha\<^sub>i c\<^sub>i + (1 - \<Sum>\<^sub>i T\<^sub>i alpha\<^sub>i) background\<close> with
  \<open>T\<^sub>i = \<Prod>\<^sub>j\<^sub><\<^sub>i (1 - alpha\<^sub>j)\<close>. White is 1 in every channel.\<close>

definition quadrature :: "nat \<Rightarrow> (nat \<Rightarrow> real) \<Rightarrow> (nat \<Rightarrow> real) \<Rightarrow> real \<Rightarrow> real" where
  "quadrature B alpha c background =
     (\<Sum>i<B. (\<Prod>j<i. 1 - alpha j) * alpha i * c i)
       + (1 - (\<Sum>i<B. (\<Prod>j<i. 1 - alpha j) * alpha i)) * background"

definition white :: vec where
  "white = [1, 1, 1]"


subsection \<open>The losses a run records\<close>

text \<open>The loss of a mini-batch in a world: the summed squared difference, over rays and
  channels, between the ground-truth colours and what \<open>render_rays\<close> returns for the model
  and the generator of that world.\<close>

definition batch_loss ::
  "('m, 'o, 's, 'fs) env \<Rightarrow> real \<Rightarrow> real \<Rightarrow> nat \<Rightarrow> ('m, 'o, 's, 'fs) world \<Rightarrow> row list
     \<Rightarrow> error + real" where
  "batch_loss E hn hf nb_bins w batch =
     (case fst (render_rays (apply_model E (model w)) (map origin batch) (map direction batch)
                  hn hf nb_bins (gen w)) of
        Inl e \<Rightarrow> Inl e
      | Inr px \<Rightarrow> Inr (sq_error_sum (map rgb batch) px))"

text \<open>The mini-batches of a run in the order they are processed, each with the world it is
  processed in: within one pass of the loader, and over the epochs of \<open>train\<close>.\<close>

fun batches_trace ::
  "('m, 'o, 's, 'fs) env \<Rightarrow> real \<Rightarrow> real \<Rightarrow> nat \<Rightarrow> row list list \<Rightarrow> ('m, 'o, 's, 'fs) world
     \<Rightarrow> (('m, 'o, 's, 'fs) world \<times> row list) list" where
  "batches_trace E hn hf nb_bins [] w = []"
| "batches_trace E hn hf nb_bins (batch # batches) w =
     (w, batch) # batches_trace E hn hf nb_bins batches (snd (train_batch E hn hf nb_bins batch [] w))"

definition after_batches ::
  "('m, 'o, 's, 'fs) env \<Rightarrow> real \<Rightarrow> real \<Rightarrow> nat \<Rightarrow> row list list \<Rightarrow> ('m, 'o, 's, 'fs) world
     \<Rightarrow> ('m, 'o, 's, 'fs) world" where
  "after_batches E hn hf nb_bins batches w = snd (train_batches E hn hf nb_bins batches [] w)"

fun epochs_trace ::
  "('m, 'o, 's, 'fs) env \<Rightarrow> real \<Rightarrow> real \<Rightarrow> nat \<Rightarrow> nat \<Rightarrow> nat \<Rightarrow> nat \<Rightarrow> ('m, 'o, 's, 'fs) world
     \<Rightarrow> (('m, 'o, 's, 'fs) world \<times> row list) list" where
  "epochs_trace E hn hf nb_bins H W 0 w = []"
| "epochs_trace E hn hf nb_bins H W (Suc n) w =
     (let batches = fst (data_loader E (gen w));
          w1 = snd (load_batches E w);
          w2 = after_batches E hn hf nb_bins batches w1;
          w3 = snd (scheduler_call E w2);
          w4 = snd (test_loop E hn hf nb_bins H W [0..<200] w3)
      in batches_trace E hn hf nb_bins batches w1 @ epochs_trace E hn hf nb_bins H W n w4)"

subsection \<open>The parts of an epoch\<close>

text \<open>Lines 177 to 189, the mini-batches and the scheduler step of one epoch; the epoch up
  to, but without, the evaluation of image \<open>k\<close>; and the loop of the specification, which
  has the training part only.\<close>

definition epoch_training ::
  "('m, 'o, 's, 'fs) env \<Rightarrow> real \<Rightarrow> real \<Rightarrow> nat \<Rightarrow> real list
     \<Rightarrow> (real list, ('m, 'o, 's, 'fs) world) prog" where
  "epoch_training E hn hf nb_bins training_loss =
     sbind (load_batches E) (\<lambda>batches.
     sbind (train_batches E hn hf nb_bins batches training_loss) (\<lambda>training_loss.
     sbind (scheduler_call E) (\<lambda>_. sreturn training_loss)))"

definition epoch_until_image ::
  "('m, 'o, 's, 'fs) env \<Rightarrow> real \<Rightarrow> real \<Rightarrow> nat \<Rightarrow> nat \<Rightarrow> nat \<Rightarrow> nat \<Rightarrow> real list
     \<Rightarrow> (real list, ('m, 'o, 's, 'fs) world) prog" where
  "epoch_until_image E hn hf nb_bins H W k training_loss =
     sbind (epoch_training E hn hf nb_bins training_loss) (\<lambda>training_loss.
     sbind (test_loop E hn hf nb_bins H W [0..<k]) (\<lambda>_. sreturn training_loss))"

fun train_epochs_no_eval ::
  "('m, 'o, 's, 'fs) env \<Rightarrow> real \<Rightarrow> real \<Rightarrow> nat \<Rightarrow> nat \<Rightarrow> real list
     \<Rightarrow> (real list, ('m, 'o, 's, 'fs) world) prog" where
  "train_epochs_no_eval E hn hf nb_bins 0 training_loss = sreturn training_loss"
| "train_epochs_no_eval E hn hf nb_bins (Suc n) training_loss =
     sbind (epoch_training E hn hf nb_bins training_loss) (train_epochs_no_eval E hn hf nb_bins n)"

definition train_no_eval ::
  "('m, 'o, 's, 'fs) env \<Rightarrow> real \<Rightarrow> real \<Rightarrow> nat \<Rightarrow> nat
     \<Rightarrow> (real list, ('m, 'o, 's, 'fs) world) prog" where
  "train_no_eval E hn hf nb_epochs nb_bins = train_epochs_no_eval E hn hf nb_bins nb_epochs []"

subsection \<open>A small run\<close>

text \<open>A model that is black and dense in front of the plane \<open>x = 1/2\<close> and empty behind
  it, whatever its parameter; an optimizer and a scheduler that count their steps; a loader
  that yields one mini-batch of one ray; a directory that records the indices written, and
  one that refuses every write; a testing dataset of 200 images of one pixel.\<close>

definition fog_model :: "nat \<Rightarrow> model_fn" where
  "fog_model m X D =
     Inr (map (\<lambda>p. [0, 0, 0]) X, map (\<lambda>p. if p ! 0 < 1 / 2 then 1 else 0) X)"

definition toy_row :: row where
  "toy_row = \<lparr>origin = (0, 0, 0), direction = (1, 0, 0), rgb = (0, 0, 0)\<rparr>"

definition toy_env :: "(nat, nat, nat, nat list) env" where
  "toy_env =
     \<lparr> apply_model = fog_model,
       optimizer_step = (\<lambda>m opt batch hn hf nb_bins g. (Suc m, Suc opt)),
       scheduler_step = (\<lambda>opt sch. (opt, Suc sch)),
       data_loader = (\<lambda>g. ([[toy_row]], g)),
       savefig = (\<lambda>img_index img fs. Inr (fs @ [img_index])),
       testing_dataset = replicate 200 toy_row \<rparr>"

definition toy_world :: "generator \<Rightarrow> (nat, nat, nat, nat list) world" where
  "toy_world g = \<lparr>model = 0, optimizer = 0, scheduler = 0, gen = g, files = []\<rparr>"

definition zero_jitter :: generator where
  "zero_jitter = (\<lambda>i. 0)"

definition late_jitter :: generator where
  "late_jitter = (\<lambda>i. if i = 3 then 1 / 2 else 0)"

definition broken_disk_env :: "(nat, nat, nat, nat list) env" where
  "broken_disk_env = toy_env\<lparr>savefig := (\<lambda>img_index img fs. Inl IOError)\<rparr>"

subsection \<open>Chunked rendering\<close>





section \<open>Positional encoding\<close>

lemma pe_loop_eq:
  "pe_loop x js out =
     out @ concat (map (\<lambda>j. [torch_sin (scale2 (2 ^ j) x), torch_cos (scale2 (2 ^ j) x)]) js)"
  by (induction js arbitrary: out) simp_all

lemma torch_cat1_rows:
  "ts \<noteq> [] \<Longrightarrow> list_all (\<lambda>t. length t = n) ts \<Longrightarrow>
     torch_cat1 ts = Inr (map (\<lambda>i. concat (map (\<lambda>t. t ! i) ts)) [0..<n])"
proof (induction ts rule: torch_cat1.induct)
  case 1
  then show ?case by simp
next
  case (2 t)
  then show ?case by (simp add: list_eq_iff_nth_eq)
next
  case (3 t v va)
  then show ?case
    by (simp add: ebind_def list_eq_iff_nth_eq)
qed

lemma pe_tensors_row:
  "i < length x \<Longrightarrow>
   concat (map (\<lambda>t. t ! i)
     (concat (map (\<lambda>j. [torch_sin (scale2 (2 ^ j) x), torch_cos (scale2 (2 ^ j) x)]) js)))
      = concat (map (\<lambda>j. map (\<lambda>v. sin (2 ^ j * v)) (x ! i) @ map (\<lambda>v. cos (2 ^ j * v)) (x ! i)) js)"
  by (induction js) (simp_all add: torch_sin_def torch_cos_def scale2_def)

lemma pe_tensors_length:
  "list_all (\<lambda>t. length t = length x)
     (concat (map (\<lambda>j. [torch_sin (scale2 (2 ^ j) x), torch_cos (scale2 (2 ^ j) x)]) js))"
  by (induction js) (simp_all add: torch_sin_def torch_cos_def scale2_def)

lemma positional_encoding_rows: "positional_encoding x L = Inr (map (pe_row L) x)"
proof -
  let ?ts = "x # concat (map (\<lambda>j. [torch_sin (scale2 (2 ^ j) x), torch_cos (scale2 (2 ^ j) x)])
                           [0..<nat L])"
  have "list_all (\<lambda>t. length t = length x) ?ts"
    using pe_tensors_length [of x] by simp
  then have "torch_cat1 ?ts = Inr (map (\<lambda>i. concat (map (\<lambda>t. t ! i) ?ts)) [0..<length x])"
    by (intro torch_cat1_rows) simp
  moreover have "map (\<lambda>i. concat (map (\<lambda>t. t ! i) ?ts)) [0..<length x] = map (pe_row L) x"
    by (rule nth_equalityI) (simp_all add: pe_tensors_row pe_row_def)
  ultimately show ?thesis
    by (simp add: positional_encoding_def pe_loop_eq)
qed

lemma length_pe_row: "length (pe_row L r) = length r * (1 + 2 * nat L)"
  by (simp add: pe_row_def length_concat comp_def sum_list_triv algebra_simps)





section \<open>The density does not depend on the viewing direction\<close>

lemma list_all_length_shape:
  "map length x = map length y \<Longrightarrow> list_all (\<lambda>r. P (length r)) x = list_all (\<lambda>r. P (length r)) y"
proof -
  assume a: "map length x = map length y"
  have "list_all (\<lambda>r. P (length r)) x = list_all P (map length x)"
    by (simp add: list_all_iff)
  also have "\<dots> = list_all P (map length y)" using a by simp
  also have "\<dots> = list_all (\<lambda>r. P (length r)) y" by (simp add: list_all_iff)
  finally show ?thesis .
qed

lemma length_linear_row: "length (linear_row l r) = min (length (weight l)) (length (bias l))"
  by (simp add: linear_row_def)

lemma map_length_linear:
  "map (length \<circ> linear_row l) x = replicate (length x) (min (length (weight l)) (length (bias l)))"
  by (simp add: comp_def length_linear_row map_replicate_const)

lemma map_length_uniform:
  "list_all (\<lambda>r. length r = k) d \<Longrightarrow> map length d = replicate (length d) k"
  by (induction d) simp_all

lemma layer_forward_shape:
  assumes "map length x = map length y"
  shows "(\<exists>e. layer_forward l x = Inl e \<and> layer_forward l y = Inl e)
       \<or> (\<exists>x' y'. layer_forward l x = Inr x' \<and> layer_forward l y = Inr y' \<and> map length x' = map length y')"
proof (cases l)
  case (Linear lin)
  have len: "length x = length y" using assms by (metis length_map)
  have eq: "list_all (\<lambda>r. length r = in_features lin) x = list_all (\<lambda>r. length r = in_features lin) y"
    using list_all_length_shape [OF assms, of "\<lambda>n. n = in_features lin"] .
  show ?thesis
  proof (cases "list_all (\<lambda>r. length r = in_features lin) x")
    case True
    then show ?thesis using Linear eq len by (simp add: map_length_linear)
  next
    case False
    then show ?thesis using Linear eq by simp
  qed
next
  case ReLU
  then show ?thesis using assms by (simp add: comp_def)
next
  case Sigmoid
  then show ?thesis using assms by (simp add: comp_def)
qed

lemma sequential_shape:
  "map length x = map length y \<Longrightarrow>
     (\<exists>e. sequential ls x = Inl e \<and> sequential ls y = Inl e)
   \<or> (\<exists>x' y'. sequential ls x = Inr x' \<and> sequential ls y = Inr y' \<and> map length x' = map length y')"
proof (induction ls arbitrary: x y)
  case Nil
  then show ?case by simp
next
  case (Cons l ls)
  from layer_forward_shape [OF Cons.prems, of l] show ?case
  proof (elim disjE exE conjE)
    fix e assume "layer_forward l x = Inl e" "layer_forward l y = Inl e"
    then show ?thesis by (simp add: ebind_def)
  next
    fix x' y'
    assume a: "layer_forward l x = Inr x'" "layer_forward l y = Inr y'" "map length x' = map length y'"
    from Cons.IH [OF a(3)] a(1,2) show ?thesis by (simp add: ebind_def)
  qed
qed

lemma torch_cat1_pair:
  "torch_cat1 [a, b] = (if length a = length b then Inr (map2 (@) a b) else Inl ShapeError)"
  by (simp add: ebind_def)

lemma pe_rows_shape:
  "map length d1 = map length d2 \<Longrightarrow> map length (map (pe_row L) d1) = map length (map (pe_row L) d2)"
proof (induction d1 arbitrary: d2)
  case Nil
  then show ?case by simp
next
  case (Cons r d1)
  then obtain r' d2' where "d2 = r' # d2'" by (cases d2) auto
  with Cons show ?case by (simp add: length_pe_row)
qed

lemma map2_append_shape:
  "map length e1 = map length e2 \<Longrightarrow> map length (map2 (@) f e1) = map length (map2 (@) f e2)"
proof (induction f arbitrary: e1 e2)
  case Nil
  then show ?case by simp
next
  case (Cons r f)
  show ?case
  proof (cases e1)
    case Nil
    then show ?thesis using Cons.prems by simp
  next
    case (Cons a e1')
    then obtain b e2' where "e2 = b # e2'" using Cons.prems by (cases e2) auto
    with Cons Cons.prems Cons.IH [of e1' e2'] show ?thesis by simp
  qed
qed

text \<open>
  Claim C2. For a fixed model and position batch, two direction batches with the same number
  of rows (of three numbers each) give the same density output: the same exception, or the
  same density vector. The direction only enters after the density has been split off.
\<close>

theorem forward_density_ignores_direction:
  assumes "length d1 = length d2"
    and "list_all (\<lambda>r. length r = 3) d1" and "list_all (\<lambda>r. length r = 3) d2"
  shows "density_output (forward self o_in d1) = density_output (forward self o_in d2)"
proof -
  have shp: "map length d1 = map length d2"
    using assms by (simp add: map_length_uniform)
  let ?e1 = "map (pe_row (posEncDirection_dim self)) d1"
  let ?e2 = "map (pe_row (posEncDirection_dim self)) d2"
  have eshp: "map length ?e1 = map length ?e2"
    using shp by (rule pe_rows_shape)
  have tail: "density_output
        (ebind (torch_cat1 [f, ?e1]) (\<lambda>fd.
         ebind (sequential (block3 self) fd) (\<lambda>features.
         ebind (sequential (block4 self) features) (\<lambda>c. Inr (c, sigma)))))
      = density_output
        (ebind (torch_cat1 [f, ?e2]) (\<lambda>fd.
         ebind (sequential (block3 self) fd) (\<lambda>features.
         ebind (sequential (block4 self) features) (\<lambda>c. Inr (c, sigma)))))" for f sigma
  proof (cases "length f = length d1")
    case False
    then show ?thesis using assms(1) by (simp add: torch_cat1_pair ebind_def density_output_def)
  next
    case True
    have s: "map length (map2 (@) f ?e1) = map length (map2 (@) f ?e2)"
      using eshp by (rule map2_append_shape)
    from sequential_shape [OF s, of "block3 self"] show ?thesis
    proof (elim disjE exE conjE)
      fix e assume "sequential (block3 self) (map2 (@) f ?e1) = Inl e"
        "sequential (block3 self) (map2 (@) f ?e2) = Inl e"
      then show ?thesis using True assms(1)
        by (simp add: torch_cat1_pair ebind_def density_output_def)
    next
      fix x' y' assume a: "sequential (block3 self) (map2 (@) f ?e1) = Inr x'"
        "sequential (block3 self) (map2 (@) f ?e2) = Inr y'" "map length x' = map length y'"
      from sequential_shape [OF a(3), of "block4 self"] show ?thesis
      proof (elim disjE exE conjE)
        fix e assume "sequential (block4 self) x' = Inl e" "sequential (block4 self) y' = Inl e"
        then show ?thesis using a(1,2) True assms(1)
          by (simp add: torch_cat1_pair ebind_def density_output_def)
      next
        fix x'' y'' assume "sequential (block4 self) x' = Inr x''" "sequential (block4 self) y' = Inr y''"
        then show ?thesis using a(1,2) True assms(1)
          by (simp add: torch_cat1_pair ebind_def density_output_def)
      qed
    qed
  qed
  let ?emb_x = "map (pe_row (posEncCoord_dim self)) o_in"
  let ?pre = "ebind (sequential (block1 self) ?emb_x) (\<lambda>features.
              ebind (torch_cat1 [features, ?emb_x]) (\<lambda>fx.
              ebind (sequential (block2 self) fx) split_last))"
  have fwd: "forward self o_in d =
      ebind ?pre (\<lambda>(features, sigma).
        ebind (torch_cat1 [features, map (pe_row (posEncDirection_dim self)) d]) (\<lambda>fd.
        ebind (sequential (block3 self) fd) (\<lambda>features.
        ebind (sequential (block4 self) features) (\<lambda>c. Inr (c, sigma)))))" for d
    unfolding forward_def positional_encoding_rows
    by (simp add: ebind_def split: sum.splits)
  show ?thesis
  proof (cases ?pre)
    case (Inl e)
    then show ?thesis unfolding fwd by (simp add: ebind_def density_output_def)
  next
    case (Inr p)
    obtain f sigma where p: "p = (f, sigma)" by (cases p)
    show ?thesis unfolding fwd Inr p using tail [of f sigma]
      by (simp add: ebind_def [of "Inr (f, sigma)"])
  qed
qed


theorem forward_density_ignores_direction_witness:
  "length [[0, 0, 0 :: real]] = length [[1, 0, 0 :: real]]
     \<and> list_all (\<lambda>r. length r = 3) [[0, 0, 0 :: real]]
     \<and> list_all (\<lambda>r. length r = 3) [[1, 0, 0 :: real]]
     \<and> density_output (forward tiny_model [[2, 0, 0]] [[0, 0, 0]]) = Inr [2]
     \<and> density_output (forward tiny_model [[2, 0, 0]] [[1, 0, 0]]) = Inr [2]
     \<and> forward tiny_model [[2, 0, 0]] [[0, 0, 0]] = Inr ([[sigmoid 0, sigmoid 0, sigmoid 0]], [2])
     \<and> forward tiny_model [[2, 0, 0]] [[1, 0, 0]] = Inr ([[sigmoid 1, sigmoid 0, sigmoid 0]], [2])"
proof -
  have a: "forward tiny_model [[2, 0, 0]] [[0, 0, 0]] = Inr ([[sigmoid 0, sigmoid 0, sigmoid 0]], [2])"
    by (simp add: forward_def tiny_model_def NerfModel_init_def positional_encoding_def ebind_def
        split_last_def linear_row_def dot_def relu_def)
  have b: "forward tiny_model [[2, 0, 0]] [[1, 0, 0]] = Inr ([[sigmoid 1, sigmoid 0, sigmoid 0]], [2])"
    by (simp add: forward_def tiny_model_def NerfModel_init_def positional_encoding_def ebind_def
        split_last_def linear_row_def dot_def relu_def)
  have c: "density_output (forward tiny_model [[2, 0, 0]] [[0, 0, 0]]) = Inr [2]"
    by (simp add: a density_output_def)
  show ?thesis
    using forward_density_ignores_direction [of "[[0, 0, 0]]" "[[1, 0, 0]]" tiny_model "[[2, 0, 0]]"] a b c
    by simp
qed

section \<open>The ray sampler\<close>

lemma length_linspace: "length (torch_linspace a b n) = n"
  by (simp add: torch_linspace_def)

lemma nth_linspace:
  "i < n \<Longrightarrow> torch_linspace a b n ! i = a + real i * ((b - a) / real (n - 1))"
  by (auto simp: torch_linspace_def)

lemma linspace_last:
  "2 \<le> n \<Longrightarrow> torch_linspace a b n ! (n - 1) = b"
  by (simp add: nth_linspace)

lemma depth_row_eq:
  assumes "2 \<le> B" and "length ur = B"
  shows "(let r = torch_linspace hn hf B;
              m = map2 (\<lambda>a b. (a + b) / 2) (butlast r) (tl r)
          in map2 (\<lambda>(l, h) v. l + (h - l) * v) (zip (take 1 r @ m) (m @ drop (length r - 1) r)) ur)
         = depth_row hn hf B ur"
proof -
  define r where "r = torch_linspace hn hf B"
  define m where "m = map2 (\<lambda>a b. (a + b) / 2) (butlast r) (tl r)"
  define h where "h = (hf - hn) / real (B - 1)"
  have lr: "length r = B" by (simp add: r_def length_linspace)
  have lm: "length m = B - 1" by (simp add: m_def lr)
  have rn: "r ! i = hn + real i * h" if "i < B" for i
    using that by (simp add: r_def nth_linspace h_def)
  have mn: "m ! k = hn + (real k + 1 / 2) * h" if "k < B - 1" for k
    using that lr rn [of k] rn [of "Suc k"] by (simp add: m_def nth_butlast nth_tl algebra_simps)
  have t1: "take 1 r = [hn]"
    using assms(1) lr rn [of 0] by (cases r) auto
  have dl: "drop (length r - 1) r = [hf]"
  proof -
    have "drop (B - 1) r = [r ! (B - 1)]"
      using assms(1) lr by (metis Suc_diff_1 append_butlast_last_id append_eq_conv_conj diff_is_0_eq last_conv_nth length_butlast length_greater_0_conv list.size(3) not_numeral_le_zero zero_less_diff lessI less_le_trans pos2)
    then show ?thesis using linspace_last [OF assms(1), of hn hf] lr by (simp add: r_def)
  qed
  have lo: "(take 1 r @ m) ! i = bin_lower hn hf B i" if "i < B" for i
    using that t1 mn [of "i - 1"] by (cases i) (simp_all add: bin_lower_def h_def nth_append algebra_simps)
  have up: "(m @ drop (length r - 1) r) ! i = bin_upper hn hf B i" if "i < B" for i
    using that dl lm mn [of i] by (auto simp: bin_upper_def h_def nth_append)
  have "map2 (\<lambda>(l, h) v. l + (h - l) * v) (zip (take 1 r @ m) (m @ drop (length r - 1) r)) ur
         = depth_row hn hf B ur"
  proof (rule nth_equalityI)
    show "length (map2 (\<lambda>(l, h) v. l + (h - l) * v) (zip (take 1 r @ m) (m @ drop (length r - 1) r)) ur)
          = length (depth_row hn hf B ur)"
      using assms lr lm by (simp add: depth_row_def)
  next
    fix i assume "i < length (map2 (\<lambda>(l, h) v. l + (h - l) * v) (zip (take 1 r @ m) (m @ drop (length r - 1) r)) ur)"
    then have i: "i < B" using assms by simp
    have li: "i < length (zip (zip (take 1 r @ m) (m @ drop (length r - 1) r)) ur)"
      using i assms lr lm by simp
    have l1: "length (take 1 r @ m) = B" using assms lr lm by simp
    have l2: "length (m @ drop (length r - 1) r) = B" using assms lr lm by simp
    have z: "zip (zip (take 1 r @ m) (m @ drop (length r - 1) r)) ur ! i
              = ((bin_lower hn hf B i, bin_upper hn hf B i), ur ! i)"
      using i l1 l2 assms(2) lo [OF i] up [OF i] by (simp only: nth_zip length_zip min.idem)
    show "map2 (\<lambda>(l, h) v. l + (h - l) * v) (zip (take 1 r @ m) (m @ drop (length r - 1) r)) ur ! i
          = depth_row hn hf B ur ! i"
      using i li z by (simp add: depth_row_def del: length_zip)
  qed
  then show ?thesis by (simp add: r_def m_def Let_def)
qed




lemma bin_width:
  assumes "hn < hf" and "2 \<le> B" and "i < B"
  shows "bin_lower hn hf B i < bin_upper hn hf B i"
proof -
  define h where "h = (hf - hn) / real (B - 1)"
  have h: "0 < h" using assms(1,2) by (simp add: h_def)
  have hf: "hf = hn + real (B - 1) * h" using assms(2) by (simp add: h_def)
  have lo: "bin_lower hn hf B i = (if i = 0 then hn else hn + (real i - 1 / 2) * h)"
    by (simp add: bin_lower_def h_def)
  have up: "bin_upper hn hf B i = (if Suc i = B then hn + real i * h else hn + (real i + 1 / 2) * h)"
    using hf by (auto simp: bin_upper_def h_def)
  have a: "(real i - 1 / 2) * h < real i * h" "real i * h < (real i + 1 / 2) * h"
    using h by (simp_all add: algebra_simps)
  have b: "0 < (real i + 1 / 2) * h" using h by simp
  show ?thesis
    unfolding lo up using a b assms(2) by auto
qed

lemma bin_adjacent:
  "Suc i < B \<Longrightarrow> bin_upper hn hf B i = bin_lower hn hf B (Suc i)"
  by (simp add: bin_lower_def bin_upper_def algebra_simps)





lemma jitter_between:
  fixes l h v :: real
  assumes "l < h" and "0 \<le> v" and "v < 1"
  shows "l \<le> l + (h - l) * v" and "l + (h - l) * v < h"
proof -
  show "l \<le> l + (h - l) * v" using assms by simp
  have "(h - l) * v < (h - l) * 1" using assms by (intro mult_strict_left_mono) simp_all
  then show "l + (h - l) * v < h" by simp
qed

lemma depth_row_nth:
  "i < B \<Longrightarrow> depth_row hn hf B ur ! i
     = bin_lower hn hf B i + (bin_upper hn hf B i - bin_lower hn hf B i) * ur ! i"
  by (simp add: depth_row_def)

lemma depth_row_bounds:
  assumes "hn < hf" and "2 \<le> B" and "length ur = B" and "list_all (\<lambda>v. 0 \<le> v \<and> v < 1) ur" and "i < B"
  shows "bin_lower hn hf B i \<le> depth_row hn hf B ur ! i"
    and "depth_row hn hf B ur ! i < bin_upper hn hf B i"
proof -
  have v: "0 \<le> ur ! i \<and> ur ! i < 1"
    using assms(3,4,5) by (simp add: list_all_length)
  show "bin_lower hn hf B i \<le> depth_row hn hf B ur ! i"
    using jitter_between(1) [OF bin_width [OF assms(1,2,5)], of "ur ! i"] v assms(5)
    by (simp add: depth_row_nth)
  show "depth_row hn hf B ur ! i < bin_upper hn hf B i"
    using jitter_between(2) [OF bin_width [OF assms(1,2,5)], of "ur ! i"] v assms(5)
    by (simp add: depth_row_nth)
qed

lemma depth_row_increasing:
  assumes "hn < hf" and "2 \<le> B" and "length ur = B" and "list_all (\<lambda>v. 0 \<le> v \<and> v < 1) ur"
  shows "sorted_wrt (<) (depth_row hn hf B ur)"
proof -
  have "depth_row hn hf B ur ! i < depth_row hn hf B ur ! Suc i" if "Suc i < B" for i
  proof -
    have "depth_row hn hf B ur ! i < bin_upper hn hf B i"
      using depth_row_bounds(2) [OF assms, of i] that by simp
    also have "\<dots> = bin_lower hn hf B (Suc i)" using that by (rule bin_adjacent)
    also have "\<dots> \<le> depth_row hn hf B ur ! Suc i"
      using depth_row_bounds(1) [OF assms that] .
    finally show ?thesis .
  qed
  then show ?thesis
    by (simp add: sorted_wrt_iff_nth_Suc_transp depth_row_def del: upt_Suc)
qed










section \<open>The compositor\<close>

lemmas forward_eval = forward_def tiny_model_def NerfModel_init_def positional_encoding_def ebind_def
        split_last_def linear_row_def dot_def relu_def

lemma length_cumprod_from: "length (cumprod_from p as) = length as"
  by (induction as arbitrary: p) simp_all

lemma cumprod_from_nth:
  "i < length as \<Longrightarrow> cumprod_from p as ! i = p * (\<Prod>j<Suc i. as ! j)"
proof (induction as arbitrary: p i)
  case Nil
  then show ?case by simp
next
  case (Cons a as)
  show ?case
  proof (cases i)
    case 0
    then show ?thesis by simp
  next
    case (Suc k)
    then have "k < length as" using Cons.prems by simp
    from Cons.IH [OF this, of "p * a"] Suc show ?thesis
      by (simp add: prod.lessThan_Suc_shift [of _ "Suc k"] mult.assoc del: prod.lessThan_Suc)
  qed
qed

lemma transmittance_nth:
  "i < length as \<Longrightarrow> (1 # butlast (cumprod_from 1 as)) ! i = (\<Prod>j<i. as ! j)"
proof (cases i)
  case 0
  then show ?thesis by simp
next
  case (Suc k)
  assume "i < length as"
  then have k: "k < length as - 1" "k < length as" using Suc by simp_all
  then show ?thesis using Suc
    by (simp add: nth_butlast length_cumprod_from cumprod_from_nth)
qed

lemma length_weights_row: "length (weights_row al) = length al"
  by (simp add: weights_row_def length_cumprod_from)

lemma weights_row_nth:
  assumes "i < length al"
  shows "weights_row al ! i = (\<Prod>j<i. 1 - al ! j) * al ! i"
proof -
  have "(1 # butlast (cumprod_from 1 (map (\<lambda>a. 1 - a) al))) ! i = (\<Prod>j<i. map (\<lambda>a. 1 - a) al ! j)"
    using assms by (intro transmittance_nth) simp
  also have "\<dots> = (\<Prod>j<i. 1 - al ! j)"
    using assms by (intro prod.cong) simp_all
  finally have t: "(1 # butlast (cumprod_from 1 (map (\<lambda>a. 1 - a) al))) ! i = (\<Prod>j<i. 1 - al ! j)" .
  have l: "i < length (1 # butlast (cumprod_from 1 (map (\<lambda>a. 1 - a) al)))"
    using assms by (simp add: length_cumprod_from)
  show ?thesis
    unfolding weights_row_def using assms l t by (simp del: list.size length_Cons)
qed

lemma render_weights_rows: "render_weights alpha = map weights_row alpha"
  by (simp add: render_weights_def compute_accumulated_transmittance_def torch_cumprod1_def
      weights_row_def zip_map1 zip_same_conv_map comp_def Let_def)

lemma sum_list_nth_lessThan: "sum_list xs = (\<Sum>i<length xs. xs ! i)"
  by (simp add: sum_list_sum_nth atLeast0LessThan)

lemma sum_weights_row:
  "sum_list (weights_row al) = (\<Sum>i<length al. (\<Prod>j<i. 1 - al ! j) * al ! i)"
  unfolding sum_list_nth_lessThan length_weights_row
  by (intro sum.cong) (simp_all add: weights_row_nth)


lemma weighted_channel:
  assumes "length cs = length ws"
  shows "sum_list (map2 (\<lambda>w c. w * c ! k) ws cs) = (\<Sum>i<length ws. ws ! i * cs ! i ! k)"
  unfolding sum_list_nth_lessThan using assms
  by (intro sum.cong) simp_all


lemma sample_depths_map:
  "length u = N \<Longrightarrow> sample_depths hn hf B N u = map (jitter_row hn hf B) u"
  by (rule nth_equalityI)
     (simp_all add: sample_depths_def jitter_row_def Let_def zip_replicate map_replicate
        del: replicate.simps)

lemma length_jitter_row: "length ur = B \<Longrightarrow> length (jitter_row hn hf B ur) = B"
  by (auto simp: jitter_row_def Let_def torch_linspace_def)

lemma length_rows_of: "length (rows_of N B xs) = N"
  by (simp add: rows_of_def)

lemma rows_of_nth: "n < N \<Longrightarrow> rows_of N B xs ! n = take B (drop (n * B) xs)"
  by (simp add: rows_of_def)

lemma rows_of_row_length:
  assumes "length xs = N * B" and "n < N"
  shows "length (rows_of N B xs ! n) = B"
proof -
  have "Suc n * B \<le> N * B" using assms(2) by (intro mult_le_mono1) simp
  then have "n * B + B \<le> length xs" using assms(1) by simp
  then show ?thesis using assms(2) by (simp add: rows_of_nth)
qed

lemma rows_of_entry:
  assumes "length xs = N * B" and "n < N" and "i < B"
  shows "rows_of N B xs ! n ! i = xs ! (n * B + i)"
proof -
  have "Suc n * B \<le> N * B" using assms(2) by (intro mult_le_mono1) simp
  then have "n * B + B \<le> length xs" using assms(1) by simp
  then show ?thesis using assms(2,3) by (simp add: rows_of_nth)
qed

lemma rows_of_Suc:
  "rows_of (Suc N) B xs = take B xs # rows_of N B (drop B xs)"
proof -
  have "[0..<Suc N] = 0 # map Suc [0..<N]"
    by (simp add: upt_conv_Cons map_Suc_upt del: upt_Suc)
  then show ?thesis
    by (simp add: rows_of_def comp_def add.commute del: upt_Suc)
qed

lemma rows_of_concat:
  "list_all (\<lambda>c. length c = k) cs \<Longrightarrow> rows_of (length cs) k (concat cs) = cs"
  by (induction cs) (simp_all add: rows_of_Suc, simp add: rows_of_def)

lemma length_concat_uniform:
  "list_all (\<lambda>c. length c = k) cs \<Longrightarrow> length (concat cs) = length cs * k"
  by (induction cs) simp_all

lemma sample_points_same_length:
  "length t = length ray_origins \<Longrightarrow> length ray_directions = length ray_origins \<Longrightarrow>
     sample_points ray_origins t ray_directions
       = Inr (map2 (\<lambda>(p, tr) d. map (\<lambda>tv. v3_axpy p tv d) tr) (zip ray_origins t) ray_directions)"
  by (simp add: sample_points_def broadcast_rows_def)

lemma length_delta_row:
  "length (map2 (-) (tl r) (butlast r) @ [10000000000 :: real]) = max 1 (length r)"
  by simp

lemma render_samples_eq:
  assumes rd: "length ray_directions = length ray_origins"
    and u: "length u = length ray_origins"
    and x: "sample_points ray_origins (sample_depths hn hf nb_bins (length ray_origins) u)
              ray_directions = Inr x"
    and m: "nerf_model (map v3_list (concat x))
              (map v3_list (expand_directions nb_bins ray_directions)) = Inr (colors, sigma)"
    and c: "length colors = length ray_origins * nb_bins" "list_all (\<lambda>c. length c = 3) colors"
    and s: "length sigma = length ray_origins * nb_bins"
  shows "render_samples nerf_model ray_origins ray_directions hn hf nb_bins u
         = Inr (rows_of (length ray_origins) nb_bins colors,
                map2 ray_alpha (rows_of (length ray_origins) nb_bins sigma)
                  (ray_deltas (sample_depths hn hf nb_bins (length ray_origins) u)))"
proof -
  let ?N = "length ray_origins"
  let ?t = "sample_depths hn hf nb_bins ?N u"
  have lt: "length ?t = ?N" using u by (simp add: sample_depths_map)
  have lx: "length x = ?N"
    using x rd lt by (auto simp: sample_points_same_length)
  have r3: "reshape3 ?N nb_bins 3 (concat colors) = Inr (rows_of ?N nb_bins colors)"
    using c rows_of_concat [OF c(2)] length_concat_uniform [OF c(2)]
    by (simp add: reshape3_def)
  have r2: "reshape2 ?N nb_bins sigma = Inr (rows_of ?N nb_bins sigma)"
    using s by (simp add: reshape2_def)
  have ld: "length (ray_deltas ?t) = ?N" using lt by (simp add: ray_deltas_def)
  have br: "broadcast_rows ray_alpha (rows_of ?N nb_bins sigma) (ray_deltas ?t)
            = Inr (map2 ray_alpha (rows_of ?N nb_bins sigma) (ray_deltas ?t))"
    using ld by (simp add: broadcast_rows_def length_rows_of)
  show ?thesis
    unfolding render_samples_def Let_def x
    by (simp add: ebind_def m lx r3 r2 br)
qed


lemma length_composite:
  "length colors = length weights \<Longrightarrow> length (composite weights colors) = length weights"
  by (simp add: composite_def weighted_colors_def Let_def)

lemma composite_nth:
  assumes "length colors = length weights" and "n < length weights"
  shows "composite weights colors ! n
         = map (\<lambda>k. sum_list (map2 (\<lambda>w c. w * c ! k) (weights ! n) (colors ! n)) + 1
                       - sum_list (weights ! n)) [0..<3]"
  using assms by (simp add: composite_def weighted_colors_def Let_def)

lemma quadrature_cong:
  assumes "\<And>i. i < B \<Longrightarrow> a i = a' i" and "\<And>i. i < B \<Longrightarrow> c i = c' i"
  shows "quadrature B a c bg = quadrature B a' c' bg"
proof -
  have p: "(\<Prod>j<i. 1 - a j) = (\<Prod>j<i. 1 - a' j)" if "i < B" for i
    using that assms(1) by (intro prod.cong) simp_all
  have 1: "(\<Sum>i<B. (\<Prod>j<i. 1 - a j) * a i * c i) = (\<Sum>i<B. (\<Prod>j<i. 1 - a' j) * a' i * c' i)"
    using p assms by (intro sum.cong) simp_all
  have 2: "(\<Sum>i<B. (\<Prod>j<i. 1 - a j) * a i) = (\<Sum>i<B. (\<Prod>j<i. 1 - a' j) * a' i)"
    using p assms by (intro sum.cong) simp_all
  show ?thesis unfolding quadrature_def 1 2 ..
qed

lemma ray_pixel_quadrature:
  assumes "length cs = length al" and "k < 3"
  shows "sum_list (map2 (\<lambda>w c. w * c ! k) (weights_row al) cs) + 1 - sum_list (weights_row al)
         = quadrature (length al) (\<lambda>i. al ! i) (\<lambda>i. cs ! i ! k) (white ! k)"
proof -
  have w: "white ! k = 1" using assms(2) by (cases k rule: less_Suc_eq [THEN iffD1, elim_format]) (auto simp: white_def nth_Cons' eval_nat_numeral)
  have "sum_list (map2 (\<lambda>w c. w * c ! k) (weights_row al) cs)
        = (\<Sum>i<length al. weights_row al ! i * cs ! i ! k)"
    using weighted_channel [of cs "weights_row al" k] assms(1) by (simp add: length_weights_row)
  also have "\<dots> = (\<Sum>i<length al. (\<Prod>j<i. 1 - al ! j) * al ! i * cs ! i ! k)"
    by (intro sum.cong) (simp_all add: weights_row_nth)
  finally show ?thesis
    by (simp add: quadrature_def sum_weights_row w)
qed

lemma torch_rand_shape:
  "length (fst (torch_rand N B g)) = N"
  "list_all (\<lambda>ur. length ur = B) (fst (torch_rand N B g))"
  by (simp_all add: torch_rand_def list_all_iff)

lemma sample_depths_shape:
  assumes "length u = N" and "list_all (\<lambda>ur. length ur = B) u"
  shows "length (sample_depths hn hf B N u) = N"
    and "list_all (\<lambda>r. length r = B) (sample_depths hn hf B N u)"
  using assms by (simp_all add: sample_depths_map list_all_iff length_jitter_row)

lemma ray_deltas_nth:
  "n < length t \<Longrightarrow> ray_deltas t ! n = map2 (-) (tl (t ! n)) (butlast (t ! n)) @ [10000000000]"
  by (simp add: ray_deltas_def)

lemma ray_alpha_row:
  assumes "length sg = B" and "length r = B"
  shows "length (ray_alpha sg (map2 (-) (tl r) (butlast r) @ [10000000000])) = B"
    and "i < B \<Longrightarrow> ray_alpha sg (map2 (-) (tl r) (butlast r) @ [10000000000]) ! i
           = 1 - exp (- sg ! i * (map2 (-) (tl r) (butlast r) @ [10000000000]) ! i)"
  using assms by (simp_all add: ray_alpha_def)

text \<open>
  Claim C1. For a batch of rays on which the model returns the colours \<open>colors\<close> and the
  densities \<open>sigma\<close> (one row of three channels and one density per sample), and with
  \<open>delta\<close> the interval lengths of the drawn depths, \<open>render_rays\<close> returns for ray \<open>n\<close>
  and channel \<open>k\<close> exactly the quadrature of the samples of that ray over a white
  background, with \<open>alpha\<^sub>i = 1 - exp (- sigma\<^sub>i delta\<^sub>i)\<close>. The identity needs no sign
  condition on densities or interval lengths.
\<close>

theorem render_rays_emission_absorption:
  assumes rd: "length ray_directions = length ray_origins"
    and u: "u = fst (torch_rand (length ray_origins) nb_bins g)"
    and d: "delta = ray_deltas (sample_depths hn hf nb_bins (length ray_origins) u)"
    and x: "sample_points ray_origins (sample_depths hn hf nb_bins (length ray_origins) u)
              ray_directions = Inr x"
    and m: "nerf_model (map v3_list (concat x))
              (map v3_list (expand_directions nb_bins ray_directions)) = Inr (colors, sigma)"
    and c: "length colors = length ray_origins * nb_bins" "list_all (\<lambda>c. length c = 3) colors"
    and s: "length sigma = length ray_origins * nb_bins"
  shows "fst (render_rays nerf_model ray_origins ray_directions hn hf nb_bins g)
         = Inr (map (\<lambda>n. map (\<lambda>k.
                   quadrature nb_bins
                     (\<lambda>i. 1 - exp (- sigma ! (n * nb_bins + i) * delta ! n ! i))
                     (\<lambda>i. colors ! (n * nb_bins + i) ! k)
                     (white ! k)) [0..<3]) [0..<length ray_origins])"
proof -
  let ?N = "length ray_origins"
  let ?t = "sample_depths hn hf nb_bins ?N u"
  let ?sg = "rows_of ?N nb_bins sigma"
  let ?cs = "rows_of ?N nb_bins colors"
  let ?al = "map2 ray_alpha ?sg (ray_deltas ?t)"
  have lu: "length u = ?N" and su: "list_all (\<lambda>ur. length ur = nb_bins) u"
    unfolding u by (rule torch_rand_shape)+
  have lt: "length ?t = ?N" and st: "list_all (\<lambda>r. length r = nb_bins) ?t"
    using sample_depths_shape [OF lu su] by simp_all
  have rs: "render_samples nerf_model ray_origins ray_directions hn hf nb_bins u = Inr (?cs, ?al)"
    by (rule render_samples_eq [where nerf_model = nerf_model and x = x, OF rd lu x m c(1) c(2) s])
  have lal: "length ?al = ?N" using lt by (simp add: length_rows_of ray_deltas_def)
  have out: "fst (render_rays nerf_model ray_origins ray_directions hn hf nb_bins g)
             = Inr (composite (map weights_row ?al) ?cs)"
    using rs by (simp add: render_rays_def u [symmetric] split_beta Let_def ebind_def render_weights_rows)
  have row: "composite (map weights_row ?al) ?cs ! n
             = map (\<lambda>k. quadrature nb_bins
                     (\<lambda>i. 1 - exp (- sigma ! (n * nb_bins + i) * delta ! n ! i))
                     (\<lambda>i. colors ! (n * nb_bins + i) ! k) (white ! k)) [0..<3]"
    if n: "n < ?N" for n
  proof -
    let ?r = "?t ! n"
    let ?dl = "map2 (-) (tl ?r) (butlast ?r) @ [10000000000]"
    have lr: "length ?r = nb_bins" using st lt n by (simp add: list_all_length)
    have lsg: "length (?sg ! n) = nb_bins" using rows_of_row_length [OF s n] .
    have lcs: "length (?cs ! n) = nb_bins" using rows_of_row_length [OF c(1) n] .
    have dn: "delta ! n = ?dl" using n lt by (simp add: d ray_deltas_nth)
    have aln: "?al ! n = ray_alpha (?sg ! n) ?dl"
      using n lt by (simp add: length_rows_of ray_deltas_def)
    have la: "length (?al ! n) = nb_bins"
      unfolding aln using ray_alpha_row(1) [OF lsg lr] .
    have ai: "?al ! n ! i = 1 - exp (- sigma ! (n * nb_bins + i) * delta ! n ! i)" if "i < nb_bins" for i
      unfolding aln dn using ray_alpha_row(2) [OF lsg lr that] rows_of_entry [OF s n that] by simp
    have ci: "?cs ! n ! i ! k = colors ! (n * nb_bins + i) ! k" if "i < nb_bins" for i k
      using rows_of_entry [OF c(1) n that] by simp
    have "composite (map weights_row ?al) ?cs ! n
          = map (\<lambda>k. sum_list (map2 (\<lambda>w c. w * c ! k) (weights_row (?al ! n)) (?cs ! n)) + 1
                       - sum_list (weights_row (?al ! n))) [0..<3]"
      using composite_nth [of ?cs "map weights_row ?al" n] n lal by (simp add: length_rows_of)
    also have "\<dots> = map (\<lambda>k. quadrature nb_bins (\<lambda>i. ?al ! n ! i) (\<lambda>i. ?cs ! n ! i ! k) (white ! k)) [0..<3]"
      using ray_pixel_quadrature [of "?cs ! n" "?al ! n"] lcs la by (intro map_cong refl) simp
    also have "\<dots> = map (\<lambda>k. quadrature nb_bins
                     (\<lambda>i. 1 - exp (- sigma ! (n * nb_bins + i) * delta ! n ! i))
                     (\<lambda>i. colors ! (n * nb_bins + i) ! k) (white ! k)) [0..<3]"
      by (intro map_cong refl quadrature_cong ai ci)
    finally show ?thesis .
  qed
  define W where "W = composite (map weights_row ?al) ?cs"
  have lW: "length W = ?N"
    unfolding W_def using lal length_composite [of ?cs "map weights_row ?al"]
    by (simp add: length_rows_of)
  have "W = map (\<lambda>n. map (\<lambda>k. quadrature nb_bins
                     (\<lambda>i. 1 - exp (- sigma ! (n * nb_bins + i) * delta ! n ! i))
                     (\<lambda>i. colors ! (n * nb_bins + i) ! k) (white ! k)) [0..<3]) [0..<?N]"
  proof (rule nth_equalityI)
    show "length W = length (map (\<lambda>n. map (\<lambda>k. quadrature nb_bins
                     (\<lambda>i. 1 - exp (- sigma ! (n * nb_bins + i) * delta ! n ! i))
                     (\<lambda>i. colors ! (n * nb_bins + i) ! k) (white ! k)) [0..<3]) [0..<?N])"
      using lW by simp
  next
    fix n assume "n < length W"
    then have n: "n < ?N" using lW by simp
    show "W ! n = map (\<lambda>n. map (\<lambda>k. quadrature nb_bins
                     (\<lambda>i. 1 - exp (- sigma ! (n * nb_bins + i) * delta ! n ! i))
                     (\<lambda>i. colors ! (n * nb_bins + i) ! k) (white ! k)) [0..<3]) [0..<?N] ! n"
      using row [OF n] n unfolding W_def by simp
  qed
  then show ?thesis using out unfolding W_def by simp
qed


theorem render_rays_emission_absorption_witness:
  "length [(1, 0, 0) :: vec3] = length [(0, 0, 0) :: vec3]
   \<and> fst (torch_rand 1 2 (\<lambda>i. 0)) = [[0, 0]]
   \<and> ray_deltas (sample_depths 0 1 2 1 [[0, 0]]) = [[1 / 2, 10000000000]]
   \<and> sample_points [(0, 0, 0)] (sample_depths 0 1 2 1 [[0, 0]]) [(1, 0, 0)]
        = Inr [[(0, 0, 0), (1 / 2, 0, 0)]]
   \<and> forward tiny_model [[0, 0, 0], [1 / 2, 0, 0]] [[1, 0, 0], [1, 0, 0]]
        = Inr ([[sigmoid 1, sigmoid 0, sigmoid 0], [sigmoid 1, sigmoid 0, sigmoid 0]], [0, 1 / 2])
   \<and> fst (render_rays (forward tiny_model) [(0, 0, 0)] [(1, 0, 0)] 0 1 2 (\<lambda>i. 0))
        = Inr (map (\<lambda>n. map (\<lambda>k.
                   quadrature 2
                     (\<lambda>i. 1 - exp (- [0, 1 / 2] ! (n * 2 + i) * [[1 / 2, 10000000000]] ! n ! i))
                     (\<lambda>i. [[sigmoid 1, sigmoid 0, sigmoid 0], [sigmoid 1, sigmoid 0, sigmoid 0]]
                            ! (n * 2 + i) ! k)
                     (white ! k)) [0..<3]) [0..<1])"
proof -
  have u: "fst (torch_rand 1 2 (\<lambda>i. 0)) = [[0, 0]]"
    by (simp add: torch_rand_def eval_nat_numeral upt_rec)
  have t: "sample_depths 0 1 2 1 [[0, 0]] = [[0, 1 / 2]]"
    by (simp add: sample_depths_def torch_linspace_def eval_nat_numeral)
  have d: "ray_deltas (sample_depths 0 1 2 1 [[0, 0]]) = [[1 / 2, 10000000000]]"
    unfolding t by (simp add: ray_deltas_def)
  have x: "sample_points [(0, 0, 0)] (sample_depths 0 1 2 1 [[0, 0]]) [(1, 0, 0)]
        = Inr [[(0, 0, 0), (1 / 2, 0, 0)]]"
    unfolding t by (simp add: sample_points_def broadcast_rows_def v3_axpy_def)
  have m: "forward tiny_model [[0, 0, 0], [1 / 2, 0, 0]] [[1, 0, 0], [1, 0, 0]]
        = Inr ([[sigmoid 1, sigmoid 0, sigmoid 0], [sigmoid 1, sigmoid 0, sigmoid 0]], [0, 1 / 2])"
    by (simp add: forward_eval)
  show ?thesis
    using render_rays_emission_absorption [of "[(1, 0, 0)]" "[(0, 0, 0)]" "[[0, 0]]" 2 "\<lambda>i. 0"
        "[[1 / 2, 10000000000]]" 0 1 "[[(0, 0, 0), (1 / 2, 0, 0)]]" "forward tiny_model"
        "[[sigmoid 1, sigmoid 0, sigmoid 0], [sigmoid 1, sigmoid 0, sigmoid 0]]" "[0, 1 / 2]"]
      u d x m
    by (simp add: v3_list_def expand_directions_def eval_nat_numeral)
qed



lemma differences_positive:
  "sorted_wrt (<) r \<Longrightarrow> list_all (\<lambda>d. 0 < d) (map2 (-) (tl r) (butlast (r :: real list)))"
proof (induction r)
  case Nil
  then show ?case by simp
next
  case (Cons a r)
  show ?case
  proof (cases r)
    case Nil
    then show ?thesis by simp
  next
    case (Cons b rs)
    with Cons.prems Cons.IH show ?thesis by simp
  qed
qed

lemma jitter_row_sorted:
  assumes "hn < hf" and "length ur = B" and "list_all (\<lambda>v. 0 \<le> v \<and> v < 1) ur"
  shows "sorted_wrt (<) (jitter_row hn hf B ur)"
proof (cases "2 \<le> B")
  case True
  have "jitter_row hn hf B ur = depth_row hn hf B ur"
    using depth_row_eq [OF True assms(2), of hn hf] by (simp add: jitter_row_def)
  then show ?thesis using depth_row_increasing [OF assms(1) True assms(2,3)] by simp
next
  case False
  then have "length (jitter_row hn hf B ur) \<le> 1"
    using length_jitter_row [OF assms(2), of hn hf] by simp
  then show ?thesis
    by (cases "jitter_row hn hf B ur" rule: list.exhaust; cases "tl (jitter_row hn hf B ur)") auto
qed

lemma deltas_positive:
  assumes "hn < hf" and "length u = N"
    and "list_all (\<lambda>ur. length ur = B \<and> list_all (\<lambda>v. 0 \<le> v \<and> v < 1) ur) u"
  shows "list_all (list_all (\<lambda>d. 0 < d)) (ray_deltas (sample_depths hn hf B N u))"
proof -
  have "list_all (\<lambda>d. 0 < d) (map2 (-) (tl (jitter_row hn hf B ur)) (butlast (jitter_row hn hf B ur)))"
    if "ur \<in> set u" for ur
  proof -
    have "length ur = B" "list_all (\<lambda>v. 0 \<le> v \<and> v < 1) ur"
      using that assms(3) by (simp_all add: list_all_iff)
    from jitter_row_sorted [OF assms(1) this] show ?thesis by (rule differences_positive)
  qed
  then show ?thesis
    by (simp add: sample_depths_map [OF assms(2)] ray_deltas_def list_all_iff)
qed












lemma torch_rand_range:
  assumes "\<forall>i. 0 \<le> g i \<and> g i < 1"
  shows "list_all (\<lambda>ur. length ur = B \<and> list_all (\<lambda>v. 0 \<le> v \<and> v < 1) ur) (fst (torch_rand N B g))"
  using assms by (simp add: torch_rand_def list_all_iff)

text \<open>What the sampler hands to the compositor are lengths: with \<open>hn < hf\<close> and the jitter
  of a generator that yields numbers in \<open>[0, 1)\<close>, every interval length is positive.\<close>

lemma render_rays_deltas_nonnegative:
  assumes "hn < hf" and "\<forall>i. 0 \<le> g i \<and> g i < 1"
  shows "list_all (list_all (\<lambda>d. 0 \<le> d))
           (ray_deltas (sample_depths hn hf nb_bins N (fst (torch_rand N nb_bins g))))"
proof -
  have "list_all (list_all (\<lambda>d. 0 < d))
           (ray_deltas (sample_depths hn hf nb_bins N (fst (torch_rand N nb_bins g))))"
    by (rule deltas_positive [OF assms(1) torch_rand_shape(1) torch_rand_range [OF assms(2)]])
  then show ?thesis
    by (auto simp: list_all_iff intro: less_imp_le)
qed




section \<open>The training loop\<close>

lemma train_batch_result:
  "train_batch E hn hf nb_bins batch ls w = (Inr ls', w') \<Longrightarrow>
     \<exists>l. batch_loss E hn hf nb_bins w batch = Inr l \<and> ls' = ls @ [l]"
  by (auto simp: train_batch_def render_call_def batch_loss_def Let_def split_beta
      split: prod.splits sum.splits)

lemma train_batch_world:
  "snd (train_batch E hn hf nb_bins batch ls w) = snd (train_batch E hn hf nb_bins batch [] w)"
  by (auto simp: train_batch_def render_call_def Let_def split_beta split: prod.splits sum.splits)

lemma train_batches_world:
  "snd (train_batches E hn hf nb_bins batches ls w) = snd (train_batches E hn hf nb_bins batches [] w)"
proof (induction batches arbitrary: ls w)
  case Nil
  then show ?case by (simp add: sreturn_def)
next
  case (Cons b bs)
  obtain r w1 where s: "train_batch E hn hf nb_bins b ls w = (r, w1)" by force
  obtain r0 w0 where s0: "train_batch E hn hf nb_bins b [] w = (r0, w0)" by force
  have ww: "w1 = w0" using train_batch_world [of E hn hf nb_bins b ls w] s s0 by simp
  have rr: "(\<exists>e. r = Inl e \<and> r0 = Inl e) \<or> (\<exists>a b. r = Inr a \<and> r0 = Inr b)"
    using s s0
    by (auto simp: train_batch_def render_call_def Let_def split_beta split: prod.splits sum.splits)
  then show ?case
  proof (elim disjE exE conjE)
    fix e assume "r = Inl e" "r0 = Inl e"
    then show ?thesis using s s0 ww by (simp add: sbind_def)
  next
    fix a b' assume "r = Inr a" "r0 = Inr b'"
    then show ?thesis using s s0 ww Cons.IH [of a w0] Cons.IH [of b' w0] by (simp add: sbind_def)
  qed
qed

lemma train_batches_result:
  "train_batches E hn hf nb_bins batches ls w = (Inr ls', w') \<Longrightarrow>
     map Inr ls' = map Inr ls @ map (\<lambda>(w, b). batch_loss E hn hf nb_bins w b)
                                    (batches_trace E hn hf nb_bins batches w)"
proof (induction batches arbitrary: ls w)
  case Nil
  then show ?case by (simp add: sreturn_def)
next
  case (Cons b bs)
  obtain r w1 where s: "train_batch E hn hf nb_bins b ls w = (r, w1)" by force
  with Cons.prems obtain ls1 where r: "r = Inr ls1"
    by (cases r) (auto simp: sbind_def)
  from train_batch_result [OF s [unfolded r]] obtain l where
    l: "batch_loss E hn hf nb_bins w b = Inr l" "ls1 = ls @ [l]" by auto
  have w1: "w1 = snd (train_batch E hn hf nb_bins b [] w)"
    using train_batch_world [of E hn hf nb_bins b ls w] s by simp
  have "train_batches E hn hf nb_bins bs ls1 w1 = (Inr ls', w')"
    using Cons.prems s r by (simp add: sbind_def)
  from Cons.IH [OF this] show ?case
    using l w1 by simp
qed

lemma sbind_Inr:
  "sbind m f w = (Inr v, w') \<Longrightarrow> \<exists>a w1. m w = (Inr a, w1) \<and> f a w1 = (Inr v, w')"
  by (cases "m w"; cases "fst (m w)") (auto simp: sbind_def)

lemma train_epochs_result:
  "train_epochs E hn hf nb_bins H W n ls w = (Inr ls', w') \<Longrightarrow>
     map Inr ls' = map Inr ls @ map (\<lambda>(w, b). batch_loss E hn hf nb_bins w b)
                                    (epochs_trace E hn hf nb_bins H W n w)"
proof (induction n arbitrary: ls w)
  case 0
  then show ?case by (simp add: sreturn_def)
next
  case (Suc n)
  from sbind_Inr [OF Suc.prems [unfolded train_epochs.simps]]
  obtain bs w1 where 1: "load_batches E w = (Inr bs, w1)"
    and r1: "sbind (train_batches E hn hf nb_bins bs ls) (\<lambda>training_loss.
               sbind (scheduler_call E) (\<lambda>_.
               sbind (test_loop E hn hf nb_bins H W [0..<200]) (\<lambda>_.
               train_epochs E hn hf nb_bins H W n training_loss))) w1 = (Inr ls', w')"
    by blast
  from sbind_Inr [OF r1] obtain ls2 w2 where 2: "train_batches E hn hf nb_bins bs ls w1 = (Inr ls2, w2)"
    and r2: "sbind (scheduler_call E) (\<lambda>_.
               sbind (test_loop E hn hf nb_bins H W [0..<200]) (\<lambda>_.
               train_epochs E hn hf nb_bins H W n ls2)) w2 = (Inr ls', w')"
    by blast
  from sbind_Inr [OF r2] obtain u3 w3 where 3: "scheduler_call E w2 = (Inr u3, w3)"
    and r3: "sbind (test_loop E hn hf nb_bins H W [0..<200]) (\<lambda>_.
               train_epochs E hn hf nb_bins H W n ls2) w3 = (Inr ls', w')"
    by blast
  from sbind_Inr [OF r3] obtain u4 w4 where 4: "test_loop E hn hf nb_bins H W [0..<200] w3 = (Inr u4, w4)"
    and r4: "train_epochs E hn hf nb_bins H W n ls2 w4 = (Inr ls', w')"
    by blast
  have bs: "bs = fst (data_loader E (gen w))" and w1: "w1 = snd (load_batches E w)"
    using 1 by (auto simp: load_batches_def split: prod.splits)
  have w2: "w2 = after_batches E hn hf nb_bins bs w1"
    using 2 train_batches_world [of E hn hf nb_bins bs ls w1] by (simp add: after_batches_def)
  have w3: "w3 = snd (scheduler_call E w2)" using 3 by simp
  have w4: "w4 = snd (test_loop E hn hf nb_bins H W [0..<200] w3)" using 4 by simp
  have tr: "epochs_trace E hn hf nb_bins H W (Suc n) w
            = batches_trace E hn hf nb_bins bs w1 @ epochs_trace E hn hf nb_bins H W n w4"
    by (simp add: Let_def bs [symmetric] w1 [symmetric] w2 [symmetric] w3 [symmetric] w4 [symmetric]
        del: upt_Suc)
  show ?case
    unfolding tr using train_batches_result [OF 2] Suc.IH [OF r4] by simp
qed

text \<open>
  Claim C10. When \<open>train\<close> returns, the list it returns has exactly one entry for every
  mini-batch processed, in the order of processing over all epochs, and the entry of a
  mini-batch is its loss in the world in which it was processed: the summed squared colour
  error under the parameters and the jitter of that moment.
\<close>

theorem train_returns_batch_losses:
  assumes "fst (train E hn hf nb_epochs nb_bins H W w) = Inr training_loss"
  shows "length (epochs_trace E hn hf nb_bins H W nb_epochs w) = length training_loss
       \<and> map Inr training_loss
           = map (\<lambda>(w, batch). batch_loss E hn hf nb_bins w batch)
               (epochs_trace E hn hf nb_bins H W nb_epochs w)"
proof -
  obtain w' where "train_epochs E hn hf nb_bins H W nb_epochs [] w = (Inr training_loss, w')"
    using assms by (cases "train_epochs E hn hf nb_bins H W nb_epochs [] w") (simp add: train_def)
  from train_epochs_result [OF this]
  have m: "map Inr training_loss
           = map (\<lambda>(w, batch). batch_loss E hn hf nb_bins w batch)
               (epochs_trace E hn hf nb_bins H W nb_epochs w)"
    by simp
  from map_eq_imp_length_eq [OF m] have "length training_loss
      = length (epochs_trace E hn hf nb_bins H W nb_epochs w)" .
  with m show ?thesis by simp
qed

section \<open>Evaluation inside the training loop\<close>

lemma render_rays_generator:
  "snd (render_rays nerf_model ray_origins ray_directions hn hf nb_bins g)
     = (\<lambda>i. g (length ray_origins * nb_bins + i))"
  by (simp add: render_rays_def torch_rand_def split_beta Let_def)

lemmas render_eval = render_rays_def render_samples_def torch_rand_def sample_depths_def
      torch_linspace_def ray_deltas_def sample_points_def broadcast_rows_def v3_axpy_def
      v3_list_def expand_directions_def ebind_def reshape3_def reshape2_def
      rows_of_def ray_alpha_def render_weights_def compute_accumulated_transmittance_def
      torch_cumprod1_def composite_def weighted_colors_def Let_def eval_nat_numeral upt_rec

lemma fog_render:
  "\<exists>a b c. fst (render_rays (fog_model m) [(0, 0, 0)] [(1, 0, 0)] 0 1 2 g) = Inr [[a, b, c]]"
  by (simp add: render_eval fog_model_def)

lemma fog_render_value:
  assumes "g 0 = 0" and "0 \<le> g 1"
  shows "fst (render_rays (fog_model m) [(0, 0, 0)] [(1, 0, 0)] 0 1 2 g)
     = Inr [[exp (- (1 / 2 + g 1 / 2)), exp (- (1 / 2 + g 1 / 2)), exp (- (1 / 2 + g 1 / 2))]]"
  using assms by (simp add: render_eval fog_model_def)

lemma toy_row_fields:
  "origin toy_row = (0, 0, 0)" "direction toy_row = (1, 0, 0)" "rgb toy_row = (0, 0, 0)"
  by (simp_all add: toy_row_def)

lemma rows_of_one: "rows_of (Suc 0) B xs = [take B xs]"
  by (simp add: rows_of_def)

lemma render_call_fog:
  assumes "apply_model E = fog_model"
  shows "\<exists>a b c. render_call E [(0, 0, 0)] [(1, 0, 0)] 0 1 2 w
            = (Inr [[a, b, c]], w\<lparr>gen := \<lambda>i. gen w (2 + i)\<rparr>)"
proof -
  obtain a b c where r: "fst (render_rays (fog_model (model w)) [(0, 0, 0)] [(1, 0, 0)] 0 1 2 (gen w))
      = Inr [[a, b, c]]"
    using fog_render by blast
  have "render_call E [(0, 0, 0)] [(1, 0, 0)] 0 1 2 w
            = (Inr [[a, b, c]], w\<lparr>gen := \<lambda>i. gen w (2 + i)\<rparr>)"
    using r render_rays_generator [of "fog_model (model w)" "[(0, 0, 0)]" "[(1, 0, 0)]" 0 1 2 "gen w"]
    by (simp add: render_call_def assms split_beta prod_eq_iff)
  then show ?thesis by blast
qed

lemma test_image_fog:
  assumes "apply_model E = fog_model" and "k < 200"
  shows "\<exists>a b c. test_image E 0 1 (replicate 200 toy_row) 10 k 2 (Suc 0) (Suc 0) w
            = (Inr [[[a, b, c]]], w\<lparr>gen := \<lambda>i. gen w (2 + i)\<rparr>)"
proof -
  have sl: "slice k (Suc k) (replicate 200 toy_row) = [toy_row]"
    using assms(2) by (simp add: slice_def min_def)
  obtain a b c where rc: "render_call E [(0, 0, 0)] [(1, 0, 0)] 0 1 2 w
            = (Inr [[a, b, c]], w\<lparr>gen := \<lambda>i. gen w (2 + i)\<rparr>)"
    using render_call_fog [OF assms(1)] by blast
  have tc: "test_chunks E 0 1 2 (Suc 0) 10 [(0, 0, 0)] [(1, 0, 0)] [0] [] w
            = (Inr [[[a, b, c]]], w\<lparr>gen := \<lambda>i. gen w (2 + i)\<rparr>)"
    by (simp add: sbind_def sreturn_def slice_def rc)
  have "test_image E 0 1 (replicate 200 toy_row) 10 k 2 (Suc 0) (Suc 0) w
            = (Inr [[[a, b, c]]], w\<lparr>gen := \<lambda>i. gen w (2 + i)\<rparr>)"
    unfolding test_image_def Let_def
    by (simp add: sl toy_row_fields tc sbind_def slift_def torch_cat0_def reshape3_def rows_of_one
        del: test_chunks.simps)
  then show ?thesis by blast
qed

lemma test_fog:
  assumes "apply_model E = fog_model" and "testing_dataset E = replicate 200 toy_row"
    and "savefig E = (\<lambda>img_index img fs. Inr (fs @ [img_index]))" and "k < 200"
  shows "test E 0 1 (testing_dataset E) 10 k 2 (Suc 0) (Suc 0) w
         = (Inr (), w\<lparr>gen := \<lambda>i. gen w (2 + i), files := files w @ [k]\<rparr>)"
proof -
  obtain a b c where ti: "test_image E 0 1 (replicate 200 toy_row) 10 k 2 (Suc 0) (Suc 0) w
            = (Inr [[[a, b, c]]], w\<lparr>gen := \<lambda>i. gen w (2 + i)\<rparr>)"
    using test_image_fog [OF assms(1,4)] by blast
  show ?thesis
    unfolding test_def assms(2)
    by (simp add: sbind_def ti write_image_def assms(3))
qed

lemma test_loop_fog:
  assumes "apply_model E = fog_model" and "testing_dataset E = replicate 200 toy_row"
    and "savefig E = (\<lambda>img_index img fs. Inr (fs @ [img_index]))"
  shows "\<forall>k \<in> set ks. k < 200 \<Longrightarrow>
     test_loop E 0 1 2 (Suc 0) (Suc 0) ks w
       = (Inr (), w\<lparr>gen := \<lambda>i. gen w (2 * length ks + i), files := files w @ ks\<rparr>)"
proof (induction ks arbitrary: w)
  case Nil
  then show ?case by (simp add: sreturn_def)
next
  case (Cons k ks)
  then show ?case
    by (simp add: sbind_def test_fog [OF assms] add.assoc)
qed

lemma train_batch_fog:
  assumes "apply_model E = fog_model"
    and "optimizer_step E = (\<lambda>m opt batch hn hf nb_bins g. (Suc m, Suc opt))"
    and "gen w 0 = 0" and "0 \<le> gen w 1"
  shows "train_batch E 0 1 2 [toy_row] ls w
     = (Inr (ls @ [3 * (exp (- (1 / 2 + gen w 1 / 2)))\<^sup>2]),
        w\<lparr>gen := \<lambda>i. gen w (2 + i), model := Suc (model w), optimizer := Suc (optimizer w)\<rparr>)"
  using fog_render_value [OF assms(3,4), of "model w"]
    render_rays_generator [of "fog_model (model w)" "[(0, 0, 0)]" "[(1, 0, 0)]" 0 1 2 "gen w"]
  by (simp add: train_batch_def render_call_def assms(1,2) toy_row_fields
      split_beta Let_def sq_error_sum_def v3_list_def prod_eq_iff)

lemma toy_fields:
  "apply_model toy_env = fog_model"
  "optimizer_step toy_env = (\<lambda>m opt batch hn hf nb_bins g. (Suc m, Suc opt))"
  "scheduler_step toy_env = (\<lambda>opt sch. (opt, Suc sch))"
  "data_loader toy_env = (\<lambda>g. ([[toy_row]], g))"
  "savefig toy_env = (\<lambda>img_index img fs. Inr (fs @ [img_index]))"
  "testing_dataset toy_env = replicate 200 toy_row"
  by (simp_all add: toy_env_def)

lemma epoch_training_fog:
  assumes "apply_model E = fog_model"
    and "optimizer_step E = (\<lambda>m opt batch hn hf nb_bins g. (Suc m, Suc opt))"
    and "scheduler_step E = (\<lambda>opt sch. (opt, Suc sch))"
    and "data_loader E = (\<lambda>g. ([[toy_row]], g))"
    and "gen w 0 = 0" and "0 \<le> gen w 1"
  shows "sbind (load_batches E) (\<lambda>batches.
         sbind (train_batches E 0 1 2 batches ls) (\<lambda>training_loss.
         sbind (scheduler_call E) (\<lambda>_. sreturn training_loss))) w
     = (Inr (ls @ [3 * (exp (- (1 / 2 + gen w 1 / 2)))\<^sup>2]),
        w\<lparr>gen := \<lambda>i. gen w (2 + i), model := Suc (model w), optimizer := Suc (optimizer w),
           scheduler := Suc (scheduler w)\<rparr>)"
proof -
  have lb: "load_batches E w = (Inr [[toy_row]], w)"
    by (simp add: load_batches_def assms(4))
  show ?thesis
    by (simp add: sbind_def lb train_batch_fog [OF assms(1,2,5,6)] sreturn_def scheduler_call_def
        assms(3))
qed

lemma sbind_assoc: "sbind (sbind m f) g = sbind m (\<lambda>x. sbind (f x) g)"
  by (rule ext) (simp add: sbind_def split: prod.splits sum.splits)

lemma sbind_sreturn: "sbind (sreturn a) f = f a"
  by (rule ext) (simp add: sbind_def sreturn_def)

lemma test_loop_append:
  "test_loop E hn hf nb_bins H W (xs @ ys)
     = sbind (test_loop E hn hf nb_bins H W xs) (\<lambda>_. test_loop E hn hf nb_bins H W ys)"
  by (induction xs) (simp_all add: sbind_sreturn sbind_assoc)

lemma train_epochs_add:
  "train_epochs E hn hf nb_bins H W (a + b) ls
     = sbind (train_epochs E hn hf nb_bins H W a ls) (train_epochs E hn hf nb_bins H W b)"
  by (induction a arbitrary: ls) (simp_all add: sbind_sreturn sbind_assoc del: upt_Suc)

lemma train_epochs_Suc:
  "train_epochs E hn hf nb_bins H W (Suc n) ls
     = sbind (epoch_training E hn hf nb_bins ls) (\<lambda>ls'.
       sbind (test_loop E hn hf nb_bins H W [0..<200]) (\<lambda>_.
       train_epochs E hn hf nb_bins H W n ls'))"
  by (simp add: epoch_training_def sbind_assoc sbind_sreturn del: upt_Suc)

lemma epoch_split:
  assumes "k < 200"
  shows "train_epochs E hn hf nb_bins H W (Suc n) ls
         = sbind (epoch_until_image E hn hf nb_bins H W k ls) (\<lambda>ls'.
           sbind (test E hn hf (testing_dataset E) 10 k nb_bins H W) (\<lambda>_.
           sbind (test_loop E hn hf nb_bins H W [Suc k..<200]) (\<lambda>_.
           train_epochs E hn hf nb_bins H W n ls')))"
proof -
  have "[0..<200] = [0..<k] @ k # [Suc k..<200]"
    using assms by (metis less_imp_le_nat upt_add_eq_append upt_conv_Cons zero_le le_add_diff_inverse plus_nat.add_0)
  then show ?thesis
    unfolding train_epochs_Suc
    by (simp add: epoch_until_image_def test_loop_append sbind_assoc sbind_sreturn del: upt_Suc)
qed

lemma render_call_frame:
  "render_call E ro rd hn hf nb_bins w = (r, w') \<Longrightarrow>
     model w' = model w \<and> optimizer w' = optimizer w \<and> scheduler w' = scheduler w \<and> files w' = files w"
  by (auto simp: render_call_def split: prod.splits)

lemma test_chunks_frame:
  "test_chunks E hn hf nb_bins W cs ro rd is data w = (r, w') \<Longrightarrow>
     model w' = model w \<and> optimizer w' = optimizer w \<and> scheduler w' = scheduler w \<and> files w' = files w"
proof (induction "is" arbitrary: data w)
  case Nil
  then show ?case by (simp add: sreturn_def)
next
  case (Cons i "is")
  obtain r1 w1 where rc: "render_call E (slice (i * W * cs) ((i + 1) * W * cs) ro)
      (slice (i * W * cs) ((i + 1) * W * cs) rd) hn hf nb_bins w = (r1, w1)" by force
  note f = render_call_frame [OF rc]
  show ?case
  proof (cases r1)
    case (Inl e)
    then show ?thesis using Cons.prems rc f by (simp add: sbind_def)
  next
    case (Inr px)
    then have "test_chunks E hn hf nb_bins W cs ro rd is (data @ [px]) w1 = (r, w')"
      using Cons.prems rc by (simp add: sbind_def)
    from Cons.IH [OF this] f show ?thesis by simp
  qed
qed

lemma slift_frame: "slift x w = (r, w') \<Longrightarrow> w' = w"
  by (simp add: slift_def)

lemma test_image_frame:
  assumes "test_image E hn hf dataset cs k nb_bins H W w = (r, w')"
  shows "model w' = model w \<and> optimizer w' = optimizer w \<and> scheduler w' = scheduler w \<and> files w' = files w"
proof (cases "cs = 0")
  case True
  then show ?thesis using assms by (simp add: test_image_def slift_def)
next
  case False
  let ?ro = "map origin (slice (k * H * W) ((k + 1) * H * W) dataset)"
  let ?rd = "map direction (slice (k * H * W) ((k + 1) * H * W) dataset)"
  obtain r1 w1 where tc: "test_chunks E hn hf nb_bins W cs ?ro ?rd [0..<(H + cs - 1) div cs] [] w = (r1, w1)"
    by force
  note f = test_chunks_frame [OF tc]
  have "w' = w1"
    using assms False tc
    by (auto simp: test_image_def Let_def sbind_def slift_def split: sum.splits)
  then show ?thesis using f by simp
qed

lemma write_image_frame:
  "write_image E k img w = (r, w') \<Longrightarrow>
     model w' = model w \<and> optimizer w' = optimizer w \<and> scheduler w' = scheduler w \<and> gen w' = gen w"
  by (auto simp: write_image_def split: sum.splits)

lemma test_frame:
  assumes "test E hn hf dataset cs k nb_bins H W w = (r, w')"
  shows "model w' = model w \<and> optimizer w' = optimizer w \<and> scheduler w' = scheduler w"
proof -
  obtain r1 w1 where ti: "test_image E hn hf dataset cs k nb_bins H W w = (r1, w1)" by force
  note f = test_image_frame [OF ti]
  show ?thesis
  proof (cases r1)
    case (Inl e)
    then show ?thesis using assms ti f by (simp add: test_def sbind_def)
  next
    case (Inr img)
    then have "write_image E k img w1 = (r, w')" using assms ti by (simp add: test_def sbind_def)
    from write_image_frame [OF this] f show ?thesis by simp
  qed
qed

lemma test_loop_frame:
  "test_loop E hn hf nb_bins H W ks w = (r, w') \<Longrightarrow>
     model w' = model w \<and> optimizer w' = optimizer w \<and> scheduler w' = scheduler w"
proof (induction ks arbitrary: w)
  case Nil
  then show ?case by (simp add: sreturn_def)
next
  case (Cons k ks)
  obtain r1 w1 where t: "test E hn hf (testing_dataset E) 10 k nb_bins H W w = (r1, w1)" by force
  note f = test_frame [OF t]
  show ?case
  proof (cases r1)
    case (Inl e)
    then show ?thesis using Cons.prems t f by (simp add: sbind_def)
  next
    case (Inr u)
    then have "test_loop E hn hf nb_bins H W ks w1 = (r, w')" using Cons.prems t by (simp add: sbind_def)
    from Cons.IH [OF this] f show ?thesis by simp
  qed
qed

text \<open>
  Claim C8, as amended. If, in any epoch of a run, writing the image of index \<open>k\<close> fails with
  an IO error, then \<open>train\<close> raises that error at once: the remaining images and epochs are
  not run and no loss list is returned. The world in which it raises has the model
  parameters, optimizer state, schedule state and files the epoch had before image \<open>k\<close>
  was rendered.
\<close>

theorem image_write_error_is_fatal:
  assumes "train_epochs E hn hf nb_bins H W e [] w0 = (Inr ls, w)"
    and "k < 200"
    and "epoch_until_image E hn hf nb_bins H W k ls w = (Inr ls1, w1)"
    and "test_image E hn hf (testing_dataset E) 10 k nb_bins H W w1 = (Inr img, w2)"
    and "savefig E k img (files w2) = Inl IOError"
  shows "train E hn hf (e + Suc n) nb_bins H W w0 = (Inl IOError, w2)
       \<and> model w2 = model w1 \<and> optimizer w2 = optimizer w1 \<and> scheduler w2 = scheduler w1
       \<and> files w2 = files w1"
proof -
  have t: "test E hn hf (testing_dataset E) 10 k nb_bins H W w1 = (Inl IOError, w2)"
    using assms(4,5) by (simp add: test_def sbind_def write_image_def)
  have "train_epochs E hn hf nb_bins H W (Suc n) ls w = (Inl IOError, w2)"
    unfolding epoch_split [OF assms(2)] using assms(3) t by (simp add: sbind_def)
  then have "train E hn hf (e + Suc n) nb_bins H W w0 = (Inl IOError, w2)"
    unfolding train_def train_epochs_add using assms(1) by (simp add: sbind_def)
  then show ?thesis using test_image_frame [OF assms(4)] by simp
qed

lemma epoch_training_toy:
  assumes "apply_model E = fog_model"
    and "optimizer_step E = (\<lambda>m opt batch hn hf nb_bins g. (Suc m, Suc opt))"
    and "scheduler_step E = (\<lambda>opt sch. (opt, Suc sch))"
    and "data_loader E = (\<lambda>g. ([[toy_row]], g))"
    and "gen w 0 = 0" and "0 \<le> gen w 1"
  shows "epoch_training E 0 1 2 ls w
     = (Inr (ls @ [3 * (exp (- (1 / 2 + gen w 1 / 2)))\<^sup>2]),
        w\<lparr>gen := \<lambda>i. gen w (2 + i), model := Suc (model w), optimizer := Suc (optimizer w),
           scheduler := Suc (scheduler w)\<rparr>)"
  unfolding epoch_training_def by (rule epoch_training_fog [OF assms])

lemma train_toy:
  "train toy_env 0 1 (Suc 0) 2 (Suc 0) (Suc 0) (toy_world (\<lambda>i. 0))
     = (Inr [3 * (exp (- (1 / 2)))\<^sup>2],
        \<lparr>model = Suc 0, optimizer = Suc 0, scheduler = Suc 0, gen = \<lambda>i. 0, files = [0..<200]\<rparr>)"
proof -
  have et: "epoch_training toy_env 0 1 2 [] (toy_world (\<lambda>i. 0))
      = (Inr [3 * (exp (- (1 / 2)))\<^sup>2],
         \<lparr>model = Suc 0, optimizer = Suc 0, scheduler = Suc 0, gen = \<lambda>i. 0, files = []\<rparr>)"
    by (subst epoch_training_toy) (simp_all add: toy_fields toy_world_def)
  have tl: "test_loop toy_env 0 1 2 (Suc 0) (Suc 0) [0..<200]
              \<lparr>model = Suc 0, optimizer = Suc 0, scheduler = Suc 0, gen = \<lambda>i. 0, files = []\<rparr>
            = (Inr (), \<lparr>model = Suc 0, optimizer = Suc 0, scheduler = Suc 0, gen = \<lambda>i. 0,
                        files = [0..<200]\<rparr>)"
    by (subst test_loop_fog) (simp_all add: toy_fields)
  show ?thesis
    unfolding train_def train_epochs_Suc
    by (simp add: sbind_def et tl sreturn_def del: upt_Suc)
qed

theorem train_returns_batch_losses_witness:
  "fst (train toy_env 0 1 1 2 1 1 (toy_world (\<lambda>i. 0))) = Inr [3 * (exp (- (1 / 2)))\<^sup>2]
   \<and> length (epochs_trace toy_env 0 1 2 1 1 1 (toy_world (\<lambda>i. 0)))
       = length [3 * (exp (- (1 / 2 :: real)))\<^sup>2]
   \<and> map Inr [3 * (exp (- (1 / 2)))\<^sup>2]
       = map (\<lambda>(w, batch). batch_loss toy_env 0 1 2 w batch)
           (epochs_trace toy_env 0 1 2 1 1 1 (toy_world (\<lambda>i. 0)))"
  using train_returns_batch_losses [of toy_env 0 1 1 2 1 1 "toy_world (\<lambda>i. 0)"
      "[3 * (exp (- (1 / 2)))\<^sup>2]"] train_toy
  by simp

lemma broken_fields:
  "apply_model broken_disk_env = fog_model"
  "optimizer_step broken_disk_env = (\<lambda>m opt batch hn hf nb_bins g. (Suc m, Suc opt))"
  "scheduler_step broken_disk_env = (\<lambda>opt sch. (opt, Suc sch))"
  "data_loader broken_disk_env = (\<lambda>g. ([[toy_row]], g))"
  "savefig broken_disk_env = (\<lambda>img_index img fs. Inl IOError)"
  "testing_dataset broken_disk_env = replicate 200 toy_row"
  by (simp_all add: broken_disk_env_def toy_env_def)

lemma test_image_fog_value:
  assumes "apply_model E = fog_model" and "k < 200" and "gen w 0 = 0" and "0 \<le> gen w 1"
  shows "test_image E 0 1 (replicate 200 toy_row) 10 k 2 (Suc 0) (Suc 0) w
            = (Inr [[[exp (- (1 / 2 + gen w 1 / 2)), exp (- (1 / 2 + gen w 1 / 2)),
                      exp (- (1 / 2 + gen w 1 / 2))]]],
               w\<lparr>gen := \<lambda>i. gen w (2 + i)\<rparr>)"
proof -
  have sl: "slice k (Suc k) (replicate 200 toy_row) = [toy_row]"
    using assms(2) by (simp add: slice_def min_def)
  have rc: "render_call E [(0, 0, 0)] [(1, 0, 0)] 0 1 2 w
            = (Inr [[exp (- (1 / 2 + gen w 1 / 2)), exp (- (1 / 2 + gen w 1 / 2)),
                     exp (- (1 / 2 + gen w 1 / 2))]], w\<lparr>gen := \<lambda>i. gen w (2 + i)\<rparr>)"
    using fog_render_value [OF assms(3,4), of "model w"]
      render_rays_generator [of "fog_model (model w)" "[(0, 0, 0)]" "[(1, 0, 0)]" 0 1 2 "gen w"]
    by (simp add: render_call_def assms(1) split_beta prod_eq_iff)
  have tc: "test_chunks E 0 1 2 (Suc 0) 10 [(0, 0, 0)] [(1, 0, 0)] [0] [] w
            = (Inr [[[exp (- (1 / 2 + gen w 1 / 2)), exp (- (1 / 2 + gen w 1 / 2)),
                     exp (- (1 / 2 + gen w 1 / 2))]]], w\<lparr>gen := \<lambda>i. gen w (2 + i)\<rparr>)"
    by (simp add: sbind_def sreturn_def slice_def rc)
  show ?thesis
    unfolding test_image_def Let_def
    by (simp add: sl toy_row_fields tc sbind_def slift_def torch_cat0_def reshape3_def rows_of_one
        del: test_chunks.simps)
qed

lemma broken_first_epoch:
  "epoch_until_image broken_disk_env 0 1 2 (Suc 0) (Suc 0) 0 [] (toy_world zero_jitter)
     = (Inr [3 * (exp (- (1 / 2)))\<^sup>2],
        \<lparr>model = Suc 0, optimizer = Suc 0, scheduler = Suc 0, gen = zero_jitter, files = []\<rparr>)"
proof -
  have et: "epoch_training broken_disk_env 0 1 2 [] (toy_world zero_jitter)
      = (Inr [3 * (exp (- (1 / 2)))\<^sup>2],
         \<lparr>model = Suc 0, optimizer = Suc 0, scheduler = Suc 0, gen = zero_jitter, files = []\<rparr>)"
    by (subst epoch_training_toy) (simp_all add: broken_fields toy_world_def zero_jitter_def)
  show ?thesis
    by (simp add: epoch_until_image_def sbind_def et sreturn_def)
qed

lemma broken_first_image:
  "test_image broken_disk_env 0 1 (testing_dataset broken_disk_env) 10 0 2 (Suc 0) (Suc 0)
     \<lparr>model = Suc 0, optimizer = Suc 0, scheduler = Suc 0, gen = zero_jitter, files = []\<rparr>
     = (Inr [[[exp (- (1 / 2)), exp (- (1 / 2)), exp (- (1 / 2))]]],
        \<lparr>model = Suc 0, optimizer = Suc 0, scheduler = Suc 0, gen = zero_jitter, files = []\<rparr>)"
  unfolding broken_fields
  by (subst test_image_fog_value) (simp_all add: broken_fields zero_jitter_def)

theorem image_write_error_is_fatal_witness:
  "train_epochs broken_disk_env 0 1 2 1 1 0 [] (toy_world zero_jitter)
     = (Inr [], toy_world zero_jitter)
   \<and> (0 :: nat) < 200
   \<and> epoch_until_image broken_disk_env 0 1 2 1 1 0 [] (toy_world zero_jitter)
       = (Inr [3 * (exp (- (1 / 2)))\<^sup>2],
          \<lparr>model = 1, optimizer = 1, scheduler = 1, gen = zero_jitter, files = []\<rparr>)
   \<and> test_image broken_disk_env 0 1 (testing_dataset broken_disk_env) 10 0 2 1 1
         \<lparr>model = 1, optimizer = 1, scheduler = 1, gen = zero_jitter, files = []\<rparr>
       = (Inr [[[exp (- (1 / 2)), exp (- (1 / 2)), exp (- (1 / 2))]]],
          \<lparr>model = 1, optimizer = 1, scheduler = 1, gen = zero_jitter, files = []\<rparr>)
   \<and> savefig broken_disk_env 0 [[[exp (- (1 / 2)), exp (- (1 / 2)), exp (- (1 / 2))]]] [] = Inl IOError
   \<and> train broken_disk_env 0 1 (0 + Suc 1) 2 1 1 (toy_world zero_jitter)
       = (Inl IOError, \<lparr>model = 1, optimizer = 1, scheduler = 1, gen = zero_jitter, files = []\<rparr>)"
  using image_write_error_is_fatal [of broken_disk_env 0 1 2 1 1 0 "toy_world zero_jitter" "[]"
      "toy_world zero_jitter" 0 "[3 * (exp (- (1 / 2)))\<^sup>2]"
      "\<lparr>model = 1, optimizer = 1, scheduler = 1, gen = zero_jitter, files = []\<rparr>"
      "[[[exp (- (1 / 2)), exp (- (1 / 2)), exp (- (1 / 2))]]]"
      "\<lparr>model = 1, optimizer = 1, scheduler = 1, gen = zero_jitter, files = []\<rparr>" 1]
    broken_first_epoch broken_first_image
  by (simp add: sreturn_def broken_fields(5))

text \<open>
  The claim as stated, that training continues after the failed write, fails: on a
  directory that refuses every write, a run of two epochs raises the IO error after the
  first epoch, with one update made, where the training part alone makes two.
\<close>

theorem image_write_error_counterexample:
  "fst (train broken_disk_env 0 1 2 2 1 1 (toy_world zero_jitter)) = Inl IOError
   \<and> model (snd (train broken_disk_env 0 1 2 2 1 1 (toy_world zero_jitter))) = 1
   \<and> fst (train_no_eval broken_disk_env 0 1 2 2 (toy_world zero_jitter))
       = Inr [3 * (exp (- (1 / 2)))\<^sup>2, 3 * (exp (- (1 / 2)))\<^sup>2]
   \<and> model (snd (train_no_eval broken_disk_env 0 1 2 2 (toy_world zero_jitter))) = 2"
proof -
  have t: "test broken_disk_env 0 1 (testing_dataset broken_disk_env) 10 0 2 (Suc 0) (Suc 0)
     \<lparr>model = Suc 0, optimizer = Suc 0, scheduler = Suc 0, gen = zero_jitter, files = []\<rparr>
     = (Inl IOError,
        \<lparr>model = Suc 0, optimizer = Suc 0, scheduler = Suc 0, gen = zero_jitter, files = []\<rparr>)"
    by (simp add: test_def sbind_def broken_first_image write_image_def broken_fields(5))
  have "train_epochs broken_disk_env 0 1 2 (Suc 0) (Suc 0) (Suc (Suc 0)) [] (toy_world zero_jitter)
     = (Inl IOError,
        \<lparr>model = Suc 0, optimizer = Suc 0, scheduler = Suc 0, gen = zero_jitter, files = []\<rparr>)"
    by (subst epoch_split [of 0]) (simp_all add: sbind_def broken_first_epoch t)
  from this [folded numeral_2_eq_2]
  have a: "train broken_disk_env 0 1 2 2 (Suc 0) (Suc 0) (toy_world zero_jitter)
     = (Inl IOError,
        \<lparr>model = Suc 0, optimizer = Suc 0, scheduler = Suc 0, gen = zero_jitter, files = []\<rparr>)"
    by (simp add: train_def)
  have e1: "epoch_training broken_disk_env 0 1 2 [] (toy_world zero_jitter)
      = (Inr [3 * (exp (- (1 / 2)))\<^sup>2],
         \<lparr>model = Suc 0, optimizer = Suc 0, scheduler = Suc 0, gen = zero_jitter, files = []\<rparr>)"
    by (subst epoch_training_toy) (simp_all add: broken_fields toy_world_def zero_jitter_def)
  have e2: "epoch_training broken_disk_env 0 1 2 [3 * (exp (- (1 / 2)))\<^sup>2]
         \<lparr>model = Suc 0, optimizer = Suc 0, scheduler = Suc 0, gen = zero_jitter, files = []\<rparr>
      = (Inr [3 * (exp (- (1 / 2)))\<^sup>2, 3 * (exp (- (1 / 2)))\<^sup>2],
         \<lparr>model = 2, optimizer = 2, scheduler = 2, gen = zero_jitter, files = []\<rparr>)"
    by (subst epoch_training_toy) (simp_all add: broken_fields zero_jitter_def)
  have "train_epochs_no_eval broken_disk_env 0 1 2 (Suc (Suc 0)) [] (toy_world zero_jitter)
      = (Inr [3 * (exp (- (1 / 2)))\<^sup>2, 3 * (exp (- (1 / 2)))\<^sup>2],
         \<lparr>model = 2, optimizer = 2, scheduler = 2, gen = zero_jitter, files = []\<rparr>)"
    by (simp add: sbind_def e1 e2 sreturn_def)
  from this [folded numeral_2_eq_2]
  have b: "train_no_eval broken_disk_env 0 1 2 2 (toy_world zero_jitter)
      = (Inr [3 * (exp (- (1 / 2)))\<^sup>2, 3 * (exp (- (1 / 2)))\<^sup>2],
         \<lparr>model = 2, optimizer = 2, scheduler = 2, gen = zero_jitter, files = []\<rparr>)"
    by (simp add: train_no_eval_def)
  show ?thesis using a b by simp
qed

text \<open>
  Claim C7, as amended. The evaluation is a fixed part of every epoch of \<open>train\<close>, not a
  callback: after the mini-batches and the scheduler step of the epoch, \<open>test\<close> runs on the
  image indices 0 to 199. Whatever the evaluation returns or raises, the model parameters,
  the optimizer state and the schedule state are the same after it as before it.
\<close>

theorem evaluation_frame:
  assumes "test_loop E hn hf nb_bins H W [0..<200] w = (r, w')"
  shows "model w' = model w \<and> optimizer w' = optimizer w \<and> scheduler w' = scheduler w
       \<and> train_epochs E hn hf nb_bins H W (Suc n) ls
           = sbind (epoch_training E hn hf nb_bins ls) (\<lambda>ls'.
             sbind (test_loop E hn hf nb_bins H W [0..<200]) (\<lambda>_.
             train_epochs E hn hf nb_bins H W n ls'))"
  using test_loop_frame [OF assms] train_epochs_Suc [of E hn hf nb_bins H W n ls] by simp

theorem evaluation_frame_witness:
  "test_loop toy_env 0 1 2 1 1 [0..<200] (toy_world zero_jitter)
     = (Inr (), \<lparr>model = 0, optimizer = 0, scheduler = 0, gen = zero_jitter, files = [0..<200]\<rparr>)
   \<and> model \<lparr>model = 0 :: nat, optimizer = 0 :: nat, scheduler = 0 :: nat, gen = zero_jitter,
              files = [0..<200]\<rparr> = model (toy_world zero_jitter)
   \<and> optimizer \<lparr>model = 0 :: nat, optimizer = 0 :: nat, scheduler = 0 :: nat, gen = zero_jitter,
              files = [0..<200]\<rparr> = optimizer (toy_world zero_jitter)
   \<and> scheduler \<lparr>model = 0 :: nat, optimizer = 0 :: nat, scheduler = 0 :: nat, gen = zero_jitter,
              files = [0..<200]\<rparr> = scheduler (toy_world zero_jitter)
   \<and> train_epochs toy_env 0 1 2 1 1 (Suc 0) []
           = sbind (epoch_training toy_env 0 1 2 []) (\<lambda>ls'.
             sbind (test_loop toy_env 0 1 2 1 1 [0..<200]) (\<lambda>_.
             train_epochs toy_env 0 1 2 1 1 0 ls'))"
proof -
  have tl: "test_loop toy_env 0 1 2 (Suc 0) (Suc 0) [0..<200] (toy_world zero_jitter)
     = (Inr (), \<lparr>model = 0, optimizer = 0, scheduler = 0, gen = zero_jitter, files = [0..<200]\<rparr>)"
    by (subst test_loop_fog) (simp_all add: toy_fields toy_world_def zero_jitter_def)
  show ?thesis
    using evaluation_frame [of toy_env 0 1 2 1 1 "toy_world zero_jitter" "Inr ()"
        "\<lparr>model = 0, optimizer = 0, scheduler = 0, gen = zero_jitter, files = [0..<200]\<rparr>" 0 "[]"] tl
    by (simp del: upt_Suc train_epochs.simps)
qed

text \<open>
  The claim as stated, that the losses are the same with and without the evaluation, fails
  even when every evaluation succeeds: the evaluation draws jitter from the generator the
  training draws from. With a generator whose fourth number is 1/2 and all others 0, the
  second loss of a run of two epochs is \<open>3 exp(-1)\<close> with the evaluation and
  \<open>3 exp(-3/2)\<close> without it.
\<close>

theorem evaluation_changes_training_counterexample:
  "fst (train toy_env 0 1 2 2 1 1 (toy_world late_jitter))
     = Inr [3 * (exp (- (1 / 2)))\<^sup>2, 3 * (exp (- (1 / 2)))\<^sup>2]
   \<and> fst (train_no_eval toy_env 0 1 2 2 (toy_world late_jitter))
     = Inr [3 * (exp (- (1 / 2)))\<^sup>2, 3 * (exp (- (3 / 4)))\<^sup>2]
   \<and> fst (train toy_env 0 1 2 2 1 1 (toy_world late_jitter))
     \<noteq> fst (train_no_eval toy_env 0 1 2 2 (toy_world late_jitter))"
proof -
  have "fst (train_epochs toy_env 0 1 2 (Suc 0) (Suc 0) (Suc (Suc 0)) [] (toy_world late_jitter))
         = Inr [3 * (exp (- (1 / 2)))\<^sup>2, 3 * (exp (- (1 / 2)))\<^sup>2]"
    by (simp add: train_epochs_Suc sbind_def sreturn_def epoch_training_toy test_loop_fog
        toy_fields toy_world_def late_jitter_def del: upt_Suc train_epochs.simps(2))
  from this [folded numeral_2_eq_2]
  have a: "fst (train toy_env 0 1 2 2 1 1 (toy_world late_jitter))
     = Inr [3 * (exp (- (1 / 2)))\<^sup>2, 3 * (exp (- (1 / 2)))\<^sup>2]"
    by (simp add: train_def)
  have "fst (train_epochs_no_eval toy_env 0 1 2 (Suc (Suc 0)) [] (toy_world late_jitter))
         = Inr [3 * (exp (- (1 / 2)))\<^sup>2, 3 * (exp (- (3 / 4)))\<^sup>2]"
    by (simp add: sbind_def sreturn_def epoch_training_toy toy_fields toy_world_def late_jitter_def)
  from this [folded numeral_2_eq_2]
  have b: "fst (train_no_eval toy_env 0 1 2 2 (toy_world late_jitter))
     = Inr [3 * (exp (- (1 / 2)))\<^sup>2, 3 * (exp (- (3 / 4)))\<^sup>2]"
    by (simp add: train_no_eval_def)
  have "exp (- (1 / 2 :: real)) \<noteq> exp (- (3 / 4))" by simp
  then have "(exp (- (1 / 2 :: real)))\<^sup>2 \<noteq> (exp (- (3 / 4)))\<^sup>2"
    by (simp add: power2_eq_iff_nonneg)
  then show ?thesis using a b by simp
qed

section \<open>Chunked rendering of an image\<close>













































end
